theory Spec2Isabelle
  imports Complex_Main "HOL-Library.AList"
begin

section \<open>Python values and strings\<close>

text \<open>
  A Python float is a finite number, an infinity or NaN. Finite numbers are real numbers:
  the rounding of a finite result, its overflow to an infinity and the sign of zero are
  outside this development. Strings are lists of ASCII characters.
\<close>

datatype pyfloat = Finite real | PosInf | NegInf | NaN

text \<open>The comparisons \<^verbatim>\<open><\<close> and \<^verbatim>\<open>>\<close>: false whenever an operand is NaN.\<close>

fun py_lt :: "pyfloat \<Rightarrow> pyfloat \<Rightarrow> bool" where
  "py_lt (Finite a) (Finite b) = (a < b)"
| "py_lt (Finite a) PosInf = True"
| "py_lt NegInf (Finite b) = True"
| "py_lt NegInf PosInf = True"
| "py_lt _ _ = False"

definition py_gt :: "pyfloat \<Rightarrow> pyfloat \<Rightarrow> bool" where
  "py_gt a b = py_lt b a"

text \<open>
  The builtins \<^verbatim>\<open>max(a, b)\<close> and \<^verbatim>\<open>min(a, b)\<close> keep their first argument unless
  the second compares greater (smaller).
\<close>

definition py_max :: "pyfloat \<Rightarrow> pyfloat \<Rightarrow> pyfloat" where
  "py_max a b = (if py_gt b a then b else a)"

definition py_min :: "pyfloat \<Rightarrow> pyfloat \<Rightarrow> pyfloat" where
  "py_min a b = (if py_lt b a then b else a)"

text \<open>The infinity of the sign of \<open>s\<close>, NaN when \<open>s\<close> is zero.\<close>

definition signed_inf :: "real \<Rightarrow> pyfloat" where
  "signed_inf s = (if s > 0 then PosInf else if s < 0 then NegInf else NaN)"

fun sign_of :: "pyfloat \<Rightarrow> real" where
  "sign_of (Finite a) = sgn a"
| "sign_of PosInf = 1"
| "sign_of NegInf = - 1"
| "sign_of NaN = 0"

text \<open>The product \<^verbatim>\<open>a * b\<close>.\<close>

fun py_mul :: "pyfloat \<Rightarrow> pyfloat \<Rightarrow> pyfloat" where
  "py_mul NaN b = NaN"
| "py_mul a NaN = NaN"
| "py_mul (Finite a) (Finite b) = Finite (a * b)"
| "py_mul a b = signed_inf (sign_of a * sign_of b)"

text \<open>
  The quotient \<^verbatim>\<open>a / b\<close>: \<open>ieee_div\<close> is the quotient by a divisor other than zero, and
  \<open>py_truediv\<close> raises on a zero divisor.
\<close>

fun ieee_div :: "pyfloat \<Rightarrow> pyfloat \<Rightarrow> pyfloat" where
  "ieee_div NaN b = NaN"
| "ieee_div a NaN = NaN"
| "ieee_div (Finite a) (Finite b) = Finite (a / b)"
| "ieee_div (Finite a) b = Finite 0"
| "ieee_div a (Finite b) = signed_inf (sign_of a * sgn b)"
| "ieee_div a b = NaN"

definition py_truediv :: "pyfloat \<Rightarrow> pyfloat \<Rightarrow> string + pyfloat" where
  "py_truediv a b =
     (if b = Finite 0 then Inl ''float division by zero'' else Inr (ieee_div a b))"

text \<open>The negation \<^verbatim>\<open>-a\<close>, the difference \<^verbatim>\<open>a - b\<close> and the comparison \<^verbatim>\<open>a != b\<close>.\<close>

fun py_neg :: "pyfloat \<Rightarrow> pyfloat" where
  "py_neg (Finite a) = Finite (- a)"
| "py_neg PosInf = NegInf"
| "py_neg NegInf = PosInf"
| "py_neg NaN = NaN"

fun py_sub :: "pyfloat \<Rightarrow> pyfloat \<Rightarrow> pyfloat" where
  "py_sub NaN b = NaN"
| "py_sub a NaN = NaN"
| "py_sub (Finite a) (Finite b) = Finite (a - b)"
| "py_sub (Finite a) b = py_neg b"
| "py_sub a (Finite b) = a"
| "py_sub a b = (if a = b then NaN else a)"

definition py_ne :: "pyfloat \<Rightarrow> pyfloat \<Rightarrow> bool" where
  "py_ne a b = (a = NaN \<or> b = NaN \<or> a \<noteq> b)"

datatype pyval = PNone | PStr string | PFloat pyfloat

text \<open>\<^verbatim>\<open>str.isdigit\<close> and \<^verbatim>\<open>str.isspace\<close>, on ASCII characters.\<close>

definition isdigit :: "char \<Rightarrow> bool" where
  "isdigit c = (c \<in> set ''0123456789'')"

definition isspace :: "char \<Rightarrow> bool" where
  "isspace c = (c \<in> set [CHR 0x20, CHR 0x09, CHR 0x0A, CHR 0x0B, CHR 0x0C, CHR 0x0D,
                           CHR 0x1C, CHR 0x1D, CHR 0x1E, CHR 0x1F])"

definition strip :: "string \<Rightarrow> string" where
  "strip s = rev (dropWhile isspace (rev (dropWhile isspace s)))"

text \<open>\<^verbatim>\<open>s.replace(old, new)\<close> for a pattern \<open>old\<close> of one character.\<close>

definition replace1 :: "char \<Rightarrow> string \<Rightarrow> string \<Rightarrow> string" where
  "replace1 old new s = concat (map (\<lambda>c. if c = old then new else [c]) s)"


text \<open>\<^verbatim>\<open>s.startswith(p)\<close> and \<^verbatim>\<open>sub in s\<close>.\<close>

fun startswith :: "string \<Rightarrow> string \<Rightarrow> bool" where
  "startswith s [] = True"
| "startswith [] (p # ps) = False"
| "startswith (c # cs) (p # ps) = (c = p \<and> startswith cs ps)"

fun contains :: "string \<Rightarrow> string \<Rightarrow> bool" where
  "contains [] sub = (sub = [])"
| "contains (c # cs) sub = (startswith (c # cs) sub \<or> contains cs sub)"

section \<open>data\_cleaner.clean\_cnpj\<close>


section \<open>xml\_parser.converter\_valor\<close>

text \<open>
  The builtin \<^verbatim>\<open>float\<close> on strings is a parameter \<open>float\<close>: \<open>None\<close> is its
  ValueError, and it may return an infinity or NaN (as Python does on \<^verbatim>\<open>inf\<close>,
  \<^verbatim>\<open>nan\<close> and \<^verbatim>\<open>1e999\<close>). The argument \<open>texto\<close> is a string or \<^verbatim>\<open>None\<close>.
\<close>

definition converter_valor :: "(string \<Rightarrow> pyfloat option) \<Rightarrow> string option \<Rightarrow> pyfloat" where
  "converter_valor float texto =
     (case texto of
        None \<Rightarrow> Finite 0
      | Some t \<Rightarrow>
          if t = [] \<or> strip t = [] then Finite 0
          else (case float (replace1 CHR '','' ''.'' (replace1 CHR ''.'' [] t)) of
                  Some v \<Rightarrow> v
                | None \<Rightarrow> Finite 0))"

text \<open>
  Texts in the Brazilian format \<^verbatim>\<open>D{1,3}(.D{3})*,DD\<close>: a leading group \<open>g\<close> of one
  to three digits, groups \<open>gs\<close> of three digits, and two decimals.
\<close>

definition br_text :: "string \<Rightarrow> string list \<Rightarrow> char \<Rightarrow> char \<Rightarrow> string" where
  "br_text g gs d1 d2 = g @ concat (map (\<lambda>x. CHR ''.'' # x) gs) @ [CHR '','', d1, d2]"

definition br_format :: "string \<Rightarrow> string list \<Rightarrow> char \<Rightarrow> char \<Rightarrow> bool" where
  "br_format g gs d1 d2 =
     (1 \<le> length g \<and> length g \<le> 3 \<and> list_all isdigit g \<and>
      list_all (\<lambda>x. length x = 3 \<and> list_all isdigit x) gs \<and> isdigit d1 \<and> isdigit d2)"

text \<open>The number a string of decimal digits denotes.\<close>

definition digit_val :: "char \<Rightarrow> nat" where
  "digit_val c = of_char c - 48"

definition digits_val :: "string \<Rightarrow> nat" where
  "digits_val ds = foldl (\<lambda>a c. 10 * a + digit_val c) 0 ds"

text \<open>
  What \<^verbatim>\<open>float\<close> returns on the plain literals \<^verbatim>\<open>D+\<close> and \<^verbatim>\<open>D+.D+\<close>, and the
  property of a \<open>float\<close> parameter that it reads these literals so.
\<close>

definition decimal_literal :: "string \<Rightarrow> pyfloat option" where
  "decimal_literal s =
     (let ip = takeWhile isdigit s; rest = dropWhile isdigit s in
      if ip = [] then None
      else case rest of
        [] \<Rightarrow> Some (Finite (real (digits_val ip)))
      | c # fp \<Rightarrow>
          if c = CHR ''.'' \<and> fp \<noteq> [] \<and> list_all isdigit fp
          then Some (Finite (real (digits_val ip) + real (digits_val fp) / 10 ^ length fp))
          else None)"

text \<open>The same with the literals \<^verbatim>\<open>nan\<close>, \<^verbatim>\<open>inf\<close> and \<^verbatim>\<open>-inf\<close>.\<close>

definition float_literal :: "string \<Rightarrow> pyfloat option" where
  "float_literal s =
     (if s = ''nan'' then Some NaN
      else if s = ''inf'' then Some PosInf
      else if s = ''-inf'' then Some NegInf
      else decimal_literal s)"

definition reads_decimals :: "(string \<Rightarrow> pyfloat option) \<Rightarrow> bool" where
  "reads_decimals float =
     (\<forall>ip fp. ip \<noteq> [] \<and> list_all isdigit ip \<and> fp \<noteq> [] \<and> list_all isdigit fp \<longrightarrow>
        float (ip @ CHR ''.'' # fp) =
          Some (Finite (real (digits_val ip) + real (digits_val fp) / 10 ^ length fp)))"

section \<open>xml\_parser.buscar\_valor\_xml\<close>

text \<open>
  An ElementTree element: tag, text (\<^verbatim>\<open>None\<close> when there is none) and children.
\<close>

datatype element = Element (tag: string) (elem_text: "string option") (children: "element list")

text \<open>The elements strictly below an element, in document order.\<close>

fun iter_below :: "element \<Rightarrow> element list" where
  "iter_below (Element t x cs) = concat (map (\<lambda>c. c # iter_below c) cs)"

fun split_on :: "char \<Rightarrow> string \<Rightarrow> string list" where
  "split_on d [] = [[]]"
| "split_on d (c # cs) =
     (if c = d then [] # split_on d cs
      else (case split_on d cs of
              x # xs \<Rightarrow> (c # x) # xs
            | [] \<Rightarrow> [[c]]))"

fun child_steps :: "string list \<Rightarrow> element list \<Rightarrow> element list" where
  "child_steps [] es = es"
| "child_steps (t # ts) es =
     child_steps ts (concat (map (\<lambda>e. filter (\<lambda>c. tag c = t) (children e)) es))"

text \<open>
  \<^verbatim>\<open>root.find('.//' + caminho)\<close> for a path whose steps are tag names separated by
  \<^verbatim>\<open>/\<close>: the first step searches all elements below the root, each further step the
  children; the first match in document order is returned.
\<close>

definition find_xml :: "element \<Rightarrow> string \<Rightarrow> element option" where
  "find_xml xroot caminho =
     (case split_on CHR ''/'' caminho of
        [] \<Rightarrow> None
      | t # ts \<Rightarrow>
          (case child_steps ts (filter (\<lambda>e. tag e = t) (iter_below xroot)) of
             [] \<Rightarrow> None
           | e # _ \<Rightarrow> Some e))"

definition text_markers :: "string list" where
  "text_markers = [''DT_'', ''NR_'', ''CD_'', ''FDO_'', ''CLASS_'', ''COTST_'', ''TP_'']"

definition is_text_path :: "string \<Rightarrow> bool" where
  "is_text_path caminho = list_ex (\<lambda>x. contains caminho x) text_markers"

definition is_numeric_path :: "string \<Rightarrow> bool" where
  "is_numeric_path caminho =
     (CHR ''/'' \<in> set caminho \<or>
      list_ex (\<lambda>x. startswith caminho x) [''VL_'', ''QT_'', ''PR_'', ''TX_''])"

text \<open>
  The source guards the call of \<open>converter_valor\<close> with a handler that returns the
  text; \<open>converter_valor\<close> raises nothing, so the handler has no branch here.
\<close>

definition buscar_valor_xml :: "(string \<Rightarrow> pyfloat option) \<Rightarrow> element \<Rightarrow> string \<Rightarrow> pyval" where
  "buscar_valor_xml float xroot caminho =
     (let elemento = find_xml xroot caminho in
      if elemento \<noteq> None \<and> elem_text (the elemento) \<noteq> None \<and> the (elem_text (the elemento)) \<noteq> []
      then (let texto = strip (the (elem_text (the elemento))) in
            if is_text_path caminho then PStr texto
            else PFloat (converter_valor float (elem_text (the elemento))))
      else if is_text_path caminho then PStr []
      else if is_numeric_path caminho then PFloat (Finite 0)
      else PStr [])"

section \<open>models.fidc\_data.FIDCData\<close>

text \<open>
  An instance is its attribute dictionary, in insertion order. Assigning an attribute
  replaces the value in place or appends a new attribute.
\<close>

type_synonym fidc_data = "(string \<times> pyval) list"

definition FIDCData :: fidc_data where
  "FIDCData =
  [(''cnpj_fundo'', PStr []),
   (''cnpj_administrador'', PStr []),
   (''data_competencia'', PStr []),
   (''tipo_condominio'', PStr []),
   (''fundo_exclusivo'', PStr []),
   (''classe_unica'', PStr []),
   (''cotista_vinculado'', PStr []),
   (''ativo_total'', PFloat (Finite 0)),
   (''disponibilidades'', PFloat (Finite 0)),
   (''carteira_total'', PFloat (Finite 0)),
   (''outros_ativos_total'', PFloat (Finite 0)),
   (''outros_ativos_curto_prazo'', PFloat (Finite 0)),
   (''outros_ativos_longo_prazo'', PFloat (Finite 0)),
   (''creditos_adquiridos'', PFloat (Finite 0)),
   (''cred_vencidos_adimplentes'', PFloat (Finite 0)),
   (''cred_vencidos_inadimplentes'', PFloat (Finite 0)),
   (''cred_total_venc_inadimpl'', PFloat (Finite 0)),
   (''cred_inadimplencia'', PFloat (Finite 0)),
   (''cred_performados'', PFloat (Finite 0)),
   (''cred_vencidos_pendentes'', PFloat (Finite 0)),
   (''cred_emp_recuperacao'', PFloat (Finite 0)),
   (''cred_receita_publica'', PFloat (Finite 0)),
   (''cred_acao_judicial'', PFloat (Finite 0)),
   (''cred_constituicao_juridica'', PFloat (Finite 0)),
   (''cred_provisao_reducao'', PFloat (Finite 0)),
   (''dicred_total'', PFloat (Finite 0)),
   (''dicred_cedente'', PFloat (Finite 0)),
   (''dicred_venc_inadimpl'', PFloat (Finite 0)),
   (''dicred_total_venc_inad'', PFloat (Finite 0)),
   (''dicred_inadimplencia'', PFloat (Finite 0)),
   (''dicred_performados'', PFloat (Finite 0)),
   (''dicred_venc_pendentes'', PFloat (Finite 0)),
   (''dicred_emp_recuperacao'', PFloat (Finite 0)),
   (''dicred_receita_publica'', PFloat (Finite 0)),
   (''dicred_acao_judicial'', PFloat (Finite 0)),
   (''dicred_provisao_reducao'', PFloat (Finite 0)),
   (''valores_mobiliarios_total'', PFloat (Finite 0)),
   (''debentures'', PFloat (Finite 0)),
   (''cri'', PFloat (Finite 0)),
   (''notas_promissorias_comerciais'', PFloat (Finite 0)),
   (''letras_financeiras'', PFloat (Finite 0)),
   (''cotas_fif'', PFloat (Finite 0)),
   (''outros_direitos_creditorios'', PFloat (Finite 0)),
   (''titulos_publicos_federais'', PFloat (Finite 0)),
   (''cdb'', PFloat (Finite 0)),
   (''aplicacoes_compromissadas'', PFloat (Finite 0)),
   (''ativos_financeiros_rf'', PFloat (Finite 0)),
   (''cotas_fidc'', PFloat (Finite 0)),
   (''derivativos_total'', PFloat (Finite 0)),
   (''termo_comprador'', PFloat (Finite 0)),
   (''opcoes_titular'', PFloat (Finite 0)),
   (''futuros_ajuste_positivo'', PFloat (Finite 0)),
   (''swap_a_receber'', PFloat (Finite 0)),
   (''cobertura_prestada'', PFloat (Finite 0)),
   (''depositos_margem'', PFloat (Finite 0)),
   (''carteira_segmentada_total'', PFloat (Finite 0)),
   (''segmt_industrial'', PFloat (Finite 0)),
   (''segmt_mercado_imobiliario'', PFloat (Finite 0)),
   (''segmt_agronegocio'', PFloat (Finite 0)),
   (''segmt_cartao_credito'', PFloat (Finite 0)),
   (''segmt_acao_judicial'', PFloat (Finite 0)),
   (''segmt_propriedade_intelectual'', PFloat (Finite 0)),
   (''segmt_comercial_total'', PFloat (Finite 0)),
   (''segmt_comercio'', PFloat (Finite 0)),
   (''segmt_comercio_varejo'', PFloat (Finite 0)),
   (''segmt_arrend_mercantil'', PFloat (Finite 0)),
   (''segmt_servicos_total'', PFloat (Finite 0)),
   (''segmt_servicos_gerais'', PFloat (Finite 0)),
   (''segmt_servicos_publicos'', PFloat (Finite 0)),
   (''segmt_servicos_educacao'', PFloat (Finite 0)),
   (''segmt_servicos_entretenimento'', PFloat (Finite 0)),
   (''segmt_financeiro_total'', PFloat (Finite 0)),
   (''segmt_financ_credito_pessoa'', PFloat (Finite 0)),
   (''segmt_financ_consignado'', PFloat (Finite 0)),
   (''segmt_financ_corporativo'', PFloat (Finite 0)),
   (''segmt_financ_middle_market'', PFloat (Finite 0)),
   (''segmt_financ_veiculos'', PFloat (Finite 0)),
   (''segmt_financ_imob_empresarial'', PFloat (Finite 0)),
   (''segmt_financ_imob_residencial'', PFloat (Finite 0)),
   (''segmt_financ_outros'', PFloat (Finite 0)),
   (''segmt_factoring_total'', PFloat (Finite 0)),
   (''segmt_factoring_pessoa'', PFloat (Finite 0)),
   (''segmt_factoring_corporativo'', PFloat (Finite 0)),
   (''segmt_setor_publico_total'', PFloat (Finite 0)),
   (''segmt_precatorios'', PFloat (Finite 0)),
   (''segmt_creditos_tributarios'', PFloat (Finite 0)),
   (''segmt_royalties'', PFloat (Finite 0)),
   (''segmt_setor_publico_outros'', PFloat (Finite 0)),
   (''inadimplencia_total'', PFloat (Finite 0)),
   (''indice_npl_decimal'', PFloat (Finite 0)),
   (''indice_npl_percentual'', PFloat (Finite 0)),
   (''taxa_liquidez_percentual'', PFloat (Finite 0)),
   (''concentracao_credito_percentual'', PFloat (Finite 0)),
   (''status'', PStr ''PENDENTE''),
   (''data_referencia_doc'', PStr []),
   (''id_documento'', PStr []),
   (''mensagem_erro'', PNone)]"

definition setattr :: "fidc_data \<Rightarrow> string \<Rightarrow> pyval \<Rightarrow> fidc_data" where
  "setattr dados name v = AList.update name v dados"

definition getattr :: "fidc_data \<Rightarrow> string \<Rightarrow> string + pyval" where
  "getattr dados name =
     (case map_of dados name of
        Some v \<Rightarrow> Inr v
      | None \<Rightarrow> Inl (''AttributeError: '' @ name))"

section \<open>xml\_parser.FIDCXMLParser.parse\<close>

text \<open>A raised exception is \<open>Inl\<close> of its message.\<close>

definition bind_exn :: "string + 'a \<Rightarrow> ('a \<Rightarrow> string + 'b) \<Rightarrow> string + 'b" where
  "bind_exn m f = (case m of Inl e \<Rightarrow> Inl e | Inr x \<Rightarrow> f x)"

text \<open>\<^verbatim>\<open>str(v)\<close>; the text of a float is given by the parameter \<open>repr\<close>.\<close>

definition py_str :: "(pyfloat \<Rightarrow> string) \<Rightarrow> pyval \<Rightarrow> string" where
  "py_str repr v = (case v of PNone \<Rightarrow> ''None'' | PStr s \<Rightarrow> s | PFloat r \<Rightarrow> repr r)"

text \<open>\<^verbatim>\<open>float(v or 0)\<close>.\<close>

definition float_or_zero :: "(string \<Rightarrow> pyfloat option) \<Rightarrow> pyval \<Rightarrow> string + pyfloat" where
  "float_or_zero float v =
     (case v of
        PNone \<Rightarrow> Inr (Finite 0)
      | PFloat r \<Rightarrow> Inr (if r = Finite 0 then Finite 0 else r)
      | PStr s \<Rightarrow>
          if s = [] then Inr (Finite 0)
          else (case float s of
                  Some r \<Rightarrow> Inr r
                | None \<Rightarrow> Inl (''could not convert string to float: '' @ s)))"

definition float_attr :: "(string \<Rightarrow> pyfloat option) \<Rightarrow> fidc_data \<Rightarrow> string \<Rightarrow> string + pyfloat" where
  "float_attr float dados name = bind_exn (getattr dados name) (float_or_zero float)"

text \<open>The attributes read with \<open>buscar_valor_xml\<close> alone, with their paths, in source order.\<close>

definition numeric_fields :: "(string \<times> string) list" where
  "numeric_fields =
  [(''ativo_total'', ''VL_SOM_APLIC_ATIVO''),
   (''disponibilidades'', ''VL_DISPONIB''),
   (''carteira_total'', ''VL_CARTEIRA''),
   (''outros_ativos_total'', ''VL_SOM_OUTROS_ATIVOS''),
   (''outros_ativos_curto_prazo'', ''OUTROS_ATIVOS/VL_OUTRO_VL_RECEB_CURPRZ''),
   (''outros_ativos_longo_prazo'', ''OUTROS_ATIVOS/VL_OUTRO_VL_RECEB_LPRAZO''),
   (''creditos_adquiridos'', ''CRED_EXISTE/VL_SOM_DICRED_AQUIS''),
   (''cred_vencidos_adimplentes'', ''CRED_EXISTE/VL_CRED_EXISTE_VENC_ADIMPL''),
   (''cred_vencidos_inadimplentes'', ''CRED_EXISTE/VL_CRED_EXISTE_VENC_INAD''),
   (''cred_total_venc_inadimpl'', ''CRED_EXISTE/VL_CRED_TOTAL_VENC_INAD''),
   (''cred_inadimplencia'', ''CRED_EXISTE/VL_CRED_EXISTE_INAD''),
   (''cred_performados'', ''CRED_EXISTE/VL_CRED_REFER_DICRED_PERFO''),
   (''cred_vencidos_pendentes'', ''CRED_EXISTE/VL_CRED_VENC_PEND''),
   (''cred_emp_recuperacao'', ''CRED_EXISTE/VL_CRED_ORIGEM_EMP_PROC_RECUP''),
   (''cred_receita_publica'', ''CRED_EXISTE/VL_DECOR_RECEIT_PUBLIC''),
   (''cred_acao_judicial'', ''CRED_EXISTE/VL_CRED_ACAO_JUDIC''),
   (''cred_constituicao_juridica'', ''CRED_EXISTE/VL_CRED_CONST_JUR_FATRISC''),
   (''cred_provisao_reducao'', ''CRED_EXISTE/VL_PROVIS_REDUC_RECUP''),
   (''dicred_total'', ''DICRED/VL_DICRED''),
   (''dicred_cedente'', ''DICRED/VL_DICRED_CEDENT''),
   (''dicred_venc_inadimpl'', ''DICRED/VL_DICRED_EXISTE_VENC_INAD''),
   (''dicred_total_venc_inad'', ''DICRED/VL_DICRED_TOTAL_VENC_INAD''),
   (''dicred_inadimplencia'', ''DICRED/VL_DICRED_EXISTE_INAD''),
   (''dicred_performados'', ''DICRED/VL_DICRED_REFER_DICRED_PERFO''),
   (''dicred_venc_pendentes'', ''DICRED/VL_DICRED_VENC_PEND''),
   (''dicred_emp_recuperacao'', ''DICRED/VL_DICRED_ORIGEM_EMP_PROC_RECUP''),
   (''dicred_receita_publica'', ''DICRED/VL_DICRED_RECEIT_PUBLIC''),
   (''dicred_acao_judicial'', ''DICRED/VL_DICRED_ACAO_JUDIC''),
   (''dicred_provisao_reducao'', ''DICRED/VL_DICRED_PROVIS_REDUC_RECUP''),
   (''valores_mobiliarios_total'', ''VALORES_MOB/VL_SOM_VALORES_MOB''),
   (''debentures'', ''VALORES_MOB/VL_DEBT''),
   (''cri'', ''VALORES_MOB/VL_CRI''),
   (''notas_promissorias_comerciais'', ''VALORES_MOB/VL_NP_COMERC''),
   (''letras_financeiras'', ''VALORES_MOB/VL_LETRA_FINANC''),
   (''cotas_fif'', ''VALORES_MOB/VL_CLS_COTA_FIF''),
   (''outros_direitos_creditorios'', ''VALORES_MOB/VL_OUTRO_DICRED''),
   (''titulos_publicos_federais'', ''VL_TITPUB_FED''),
   (''cdb'', ''VL_CDB''),
   (''aplicacoes_compromissadas'', ''VL_APLIC_OPER_COMPSS''),
   (''ativos_financeiros_rf'', ''VL_ATIV_FINANC_RF''),
   (''cotas_fidc'', ''VL_COTA_FIDC''),
   (''derivativos_total'', ''MERC_DERIVATIVO/VL_SOM_MERC_DERIVATIVO''),
   (''termo_comprador'', ''MERC_DERIVATIVO/VL_MERC_TERMO_POS_COMPRD''),
   (''opcoes_titular'', ''MERC_DERIVATIVO/VL_MERC_OP_POS_TITUL''),
   (''futuros_ajuste_positivo'', ''MERC_DERIVATIVO/VL_MERC_FUT_AJUST_POSIT''),
   (''swap_a_receber'', ''MERC_DERIVATIVO/VL_DIFER_SWAP_RECEB''),
   (''cobertura_prestada'', ''MERC_DERIVATIVO/VL_COBERT_PREST''),
   (''depositos_margem'', ''MERC_DERIVATIVO/VL_DEPOS_MARGEM''),
   (''carteira_segmentada_total'', ''CART_SEGMT/VL_SOM_CART_SEGMT''),
   (''segmt_industrial'', ''CART_SEGMT/VL_IND''),
   (''segmt_mercado_imobiliario'', ''CART_SEGMT/VL_MERC_IMOBIL''),
   (''segmt_agronegocio'', ''CART_SEGMT/VL_AGRONEG''),
   (''segmt_cartao_credito'', ''CART_SEGMT/VL_CART_CRED''),
   (''segmt_acao_judicial'', ''CART_SEGMT/VL_ACAO_JUDIC''),
   (''segmt_propriedade_intelectual'', ''CART_SEGMT/VL_PROPRD_MARCA_PATENT''),
   (''segmt_comercial_total'', ''SEGMT_COMERC/VL_SOM_SEGMT_COMERC''),
   (''segmt_comercio'', ''SEGMT_COMERC/VL_COMERC''),
   (''segmt_comercio_varejo'', ''SEGMT_COMERC/VL_COMERC_VARJ''),
   (''segmt_arrend_mercantil'', ''SEGMT_COMERC/VL_ARREND_MERCNT''),
   (''segmt_servicos_total'', ''SEGMT_SERV/VL_SOM_SEGMT_SERV''),
   (''segmt_servicos_gerais'', ''SEGMT_SERV/VL_SERV''),
   (''segmt_servicos_publicos'', ''SEGMT_SERV/VL_SERV_PUBLIC''),
   (''segmt_servicos_educacao'', ''SEGMT_SERV/VL_SERV_EDUC''),
   (''segmt_servicos_entretenimento'', ''SEGMT_SERV/VL_SERV_ENTRETEN''),
   (''segmt_financeiro_total'', ''SEGMT_FINANC/VL_SOM_SEGMT_FINANC''),
   (''segmt_financ_credito_pessoa'', ''SEGMT_FINANC/VL_FINANC_CRED_PESSOA''),
   (''segmt_financ_consignado'', ''SEGMT_FINANC/VL_FINANC_CRED_PESSOA_CONSIG''),
   (''segmt_financ_corporativo'', ''SEGMT_FINANC/VL_FINANC_CRED_CORPOR''),
   (''segmt_financ_middle_market'', ''SEGMT_FINANC/VL_FINANC_MMARKET''),
   (''segmt_financ_veiculos'', ''SEGMT_FINANC/VL_FINANC_VEICL''),
   (''segmt_financ_imob_empresarial'', ''SEGMT_FINANC/VL_FINANC_IMOBIL_EMPSRL''),
   (''segmt_financ_imob_residencial'', ''SEGMT_FINANC/VL_FINANC_IMOBIL_RESID''),
   (''segmt_financ_outros'', ''SEGMT_FINANC/VL_FINANC_OUTRO''),
   (''segmt_factoring_total'', ''SEGMT_FACT/VL_SOM_SEGMT_FACT''),
   (''segmt_factoring_pessoa'', ''SEGMT_FACT/VL_FACT_PESSOA''),
   (''segmt_factoring_corporativo'', ''SEGMT_FACT/VL_FACT_CORPOR''),
   (''segmt_setor_publico_total'', ''SEGMT_SETOR_PUBLIC/VL_SOM_SEGMT_SETOR_PUBLIC''),
   (''segmt_precatorios'', ''SEGMT_SETOR_PUBLIC/VL_SETOR_PUBLIC_PRECAT''),
   (''segmt_creditos_tributarios'', ''SEGMT_SETOR_PUBLIC/VL_SETOR_PUBLIC_CRED_TRIBUT''),
   (''segmt_royalties'', ''SEGMT_SETOR_PUBLIC/VL_SETOR_PUBLIC_ROYA''),
   (''segmt_setor_publico_outros'', ''SEGMT_SETOR_PUBLIC/VL_SETOR_PUBLIC_OUTRO'')]"

definition set_identification ::
  "(string \<Rightarrow> pyfloat option) \<Rightarrow> (pyfloat \<Rightarrow> string) \<Rightarrow> element \<Rightarrow> string \<Rightarrow> fidc_data \<Rightarrow> fidc_data" where
  "set_identification float repr xroot cnpj_fallback dados =
     (let lido = py_str repr (buscar_valor_xml float xroot ''NR_CNPJ_FUNDO'');
          dados = setattr dados ''cnpj_fundo'' (PStr (if lido \<noteq> [] then lido else cnpj_fallback));
          dados = setattr dados ''cnpj_administrador''
                    (PStr (py_str repr (buscar_valor_xml float xroot ''NR_CNPJ_ADM'')));
          dados = setattr dados ''data_competencia''
                    (PStr (py_str repr (buscar_valor_xml float xroot ''DT_COMPT'')));
          dados = setattr dados ''tipo_condominio''
                    (PStr (py_str repr (buscar_valor_xml float xroot ''TP_CONDOMINIO'')));
          dados = setattr dados ''fundo_exclusivo''
                    (PStr (py_str repr (buscar_valor_xml float xroot ''FDO_EXCL'')));
          dados = setattr dados ''classe_unica''
                    (PStr (py_str repr (buscar_valor_xml float xroot ''CLASS_UNICA'')));
          dados = setattr dados ''cotista_vinculado''
                    (PStr (py_str repr (buscar_valor_xml float xroot ''COTST_VINCUL'')))
      in dados)"

definition set_numeric_fields ::
  "(string \<Rightarrow> pyfloat option) \<Rightarrow> element \<Rightarrow> fidc_data \<Rightarrow> fidc_data" where
  "set_numeric_fields float xroot dados =
     foldl (\<lambda>d (name, caminho). setattr d name (buscar_valor_xml float xroot caminho))
       dados numeric_fields"

definition set_npl :: "pyfloat \<Rightarrow> pyfloat \<Rightarrow> fidc_data \<Rightarrow> string + fidc_data" where
  "set_npl carteira_credito inadimplencia_total dados =
     (if py_gt carteira_credito (Finite 0) \<and> py_gt inadimplencia_total (Finite 0)
      then bind_exn (py_truediv inadimplencia_total carteira_credito) (\<lambda>q.
             let npl_percent = py_mul q (Finite 100) in
           bind_exn (py_truediv npl_percent (Finite 100)) (\<lambda>npl_decimal.
             let dados = setattr dados ''indice_npl_decimal'' (PFloat (py_min npl_decimal (Finite 1)))
             in Inr (setattr dados ''indice_npl_percentual'' (PFloat npl_percent))))
      else (let dados = setattr dados ''indice_npl_decimal'' (PFloat (Finite 0))
            in Inr (setattr dados ''indice_npl_percentual'' (PFloat (Finite 0)))))"

definition set_ratio ::
  "string \<Rightarrow> string \<Rightarrow> pyfloat \<Rightarrow> pyfloat \<Rightarrow> fidc_data \<Rightarrow> string + fidc_data" where
  "set_ratio percentual decimal numerador ativo_total dados =
     (if py_gt ativo_total (Finite 0)
      then bind_exn (py_truediv numerador ativo_total) (\<lambda>q.
             let p = py_mul q (Finite 100);
                 dados = setattr dados percentual (PFloat p)
             in
           bind_exn (py_truediv p (Finite 100)) (\<lambda>d.
             Inr (setattr dados decimal (PFloat d))))
      else (let dados = setattr dados percentual (PFloat (Finite 0))
            in Inr (setattr dados decimal (PFloat (Finite 0)))))"

definition set_indicators :: "(string \<Rightarrow> pyfloat option) \<Rightarrow> fidc_data \<Rightarrow> string + fidc_data" where
  "set_indicators float dados =
     bind_exn (float_attr float dados ''cred_inadimplencia'') (\<lambda>inadimpl_cred.
     bind_exn (float_attr float dados ''dicred_inadimplencia'') (\<lambda>inadimpl_dicred.
       let inadimplencia_total = py_max inadimpl_cred inadimpl_dicred;
           dados = setattr dados ''inadimplencia_total'' (PFloat inadimplencia_total)
       in
     bind_exn (float_attr float dados ''creditos_adquiridos'') (\<lambda>carteira_credito.
       let dados = setattr dados ''carteira_bruta'' (PFloat carteira_credito) in
     bind_exn (set_npl carteira_credito inadimplencia_total dados) (\<lambda>dados.
     bind_exn (float_attr float dados ''ativo_total'') (\<lambda>ativo_total.
     bind_exn (float_attr float dados ''disponibilidades'') (\<lambda>disponibilidades.
     bind_exn (set_ratio ''taxa_liquidez_percentual'' ''taxa_liquidez_decimal''
                 disponibilidades ativo_total dados) (\<lambda>dados.
     bind_exn (set_ratio ''concentracao_credito_percentual'' ''concentracao_credito_decimal''
                 carteira_credito ativo_total dados) (\<lambda>dados.
       Inr (setattr dados ''status'' (PStr ''SUCESSO''))))))))))"

text \<open>
  \<open>parse\<close> returns \<open>Inr dados\<close> for \<^verbatim>\<open>(True, dados, None)\<close> and \<open>Inl msg\<close> for
  \<^verbatim>\<open>(False, None, msg)\<close>. \<^verbatim>\<open>ET.fromstring\<close> is the parameter \<open>fromstring\<close>.
\<close>

definition parse ::
  "(string \<Rightarrow> pyfloat option) \<Rightarrow> (pyfloat \<Rightarrow> string) \<Rightarrow> ('x \<Rightarrow> string + element) \<Rightarrow> 'x \<Rightarrow> string
     \<Rightarrow> string + fidc_data" where
  "parse float repr fromstring xml_content cnpj_fallback =
     (case fromstring xml_content of
        Inl e \<Rightarrow> Inl (''Erro XML: '' @ e)
      | Inr xroot \<Rightarrow>
          (case set_indicators float
                  (set_numeric_fields float xroot
                    (set_identification float repr xroot cnpj_fallback FIDCData)) of
             Inl e \<Rightarrow> Inl (''Erro Extra'' @ [CHR 0xC3, CHR 0xA7, CHR 0xC3, CHR 0xA3] @ ''o: '' @ e)
           | Inr dados \<Rightarrow> Inr dados))"

section \<open>Example inputs\<close>

text \<open>
  An instance of the parameter \<open>repr\<close>: the identification paths never yield floats,
  so the examples never use its value.
\<close>

definition repr0 :: "pyfloat \<Rightarrow> string" where
  "repr0 r = ''0.0''"

text \<open>An instance of \<^verbatim>\<open>pd.to_numeric\<close> with \<^verbatim>\<open>errors='coerce'\<close>.\<close>

definition to_numeric0 :: "string \<Rightarrow> pyfloat" where
  "to_numeric0 s = (case decimal_literal s of Some v \<Rightarrow> v | None \<Rightarrow> NaN)"

definition filing_50_30 :: element where
  "filing_50_30 = Element ''DOC_ARQ'' None
     [Element ''CRED_EXISTE'' None
        [Element ''VL_SOM_DICRED_AQUIS'' (Some ''800.000,00'') [],
         Element ''VL_CRED_EXISTE_INAD'' (Some ''50,00'') []],
      Element ''DICRED'' None [Element ''VL_DICRED_EXISTE_INAD'' (Some ''30,00'') []]]"

definition filing_empty :: element where
  "filing_empty = Element ''DOC_ARQ'' None []"

definition filing_malformed :: element where
  "filing_malformed = Element ''DOC_ARQ'' None
     [Element ''CRED_EXISTE'' None
        [Element ''VL_SOM_DICRED_AQUIS'' (Some ''0,01'') [],
         Element ''VL_CRED_EXISTE_INAD'' (Some ''3.100.000,00'') []]]"

definition filing_cnpj :: element where
  "filing_cnpj = Element ''DOC_ARQ'' None
     [Element ''CAB_INFORM'' None
        [Element ''NR_CNPJ_FUNDO'' (Some '' 12345678000190 '') []]]"


text \<open>Filings whose delinquency or portfolio texts are \<^verbatim>\<open>nan\<close> and \<^verbatim>\<open>inf\<close>.\<close>

definition filing_nan_30 :: element where
  "filing_nan_30 = Element ''DOC_ARQ'' None
     [Element ''CRED_EXISTE'' None [Element ''VL_CRED_EXISTE_INAD'' (Some ''nan'') []],
      Element ''DICRED'' None [Element ''VL_DICRED_EXISTE_INAD'' (Some ''30,00'') []]]"

definition filing_30_nan :: element where
  "filing_30_nan = Element ''DOC_ARQ'' None
     [Element ''CRED_EXISTE'' None [Element ''VL_CRED_EXISTE_INAD'' (Some ''30,00'') []],
      Element ''DICRED'' None [Element ''VL_DICRED_EXISTE_INAD'' (Some ''nan'') []]]"

definition filing_inf :: element where
  "filing_inf = Element ''DOC_ARQ'' None
     [Element ''CRED_EXISTE'' None
        [Element ''VL_SOM_DICRED_AQUIS'' (Some ''inf'') [],
         Element ''VL_CRED_EXISTE_INAD'' (Some ''inf'') []]]"

section \<open>api\_client.B3ApiClient: the retrying session\<close>

text \<open>
  One attempt of the transport either fails (while connecting, while reading, or
  otherwise) or returns a response: status code, the delay of a
  \<^verbatim>\<open>Retry-After\<close> header if the response carries one, and body.
\<close>

datatype outcome =
    ConnectError
  | ReadError
  | OtherError
  | Response nat "real option" string

text \<open>
  The retry state of the transport library: the counters left (\<^verbatim>\<open>None\<close> is no
  limit), the configuration, and the number of attempts recorded in the history.
\<close>

record retry =
  total :: int
  connect :: "int option"
  read :: "int option"
  redirect :: "int option"
  status_count :: "int option"
  other :: "int option"
  backoff_factor :: real
  status_forcelist :: "nat list"
  history :: nat



text \<open>
  \<^verbatim>\<open>Retry.is_exhausted\<close>: the counters that are neither \<^verbatim>\<open>None\<close> nor 0 are kept,
  and the state is exhausted when the smallest of them is negative.
\<close>

definition is_exhausted :: "retry \<Rightarrow> bool" where
  "is_exhausted r =
     (let retry_counts =
            filter (\<lambda>c. c \<noteq> 0)
              (total r # concat (map (\<lambda>c. case c of None \<Rightarrow> [] | Some n \<Rightarrow> [n])
                 [connect r, read r, redirect r, status_count r, other r]))
      in if retry_counts = [] then False else Min (set retry_counts) < 0)"

text \<open>
  \<^verbatim>\<open>Retry.is_retry\<close> for a GET request (GET is an allowed method): the status is in
  the force list, or the response has a \<^verbatim>\<open>Retry-After\<close> header and one of the statuses
  413, 429, 503.
\<close>

definition is_retry :: "retry \<Rightarrow> nat \<Rightarrow> bool \<Rightarrow> bool" where
  "is_retry r status_code has_retry_after =
     ((status_forcelist r \<noteq> [] \<and> status_code \<in> set (status_forcelist r)) \<or>
      (total r \<noteq> 0 \<and> has_retry_after \<and> status_code \<in> set [413, 429, 503]))"

text \<open>
  \<^verbatim>\<open>Retry.increment\<close>: \<open>None\<close> is \<^verbatim>\<open>MaxRetryError\<close>.
\<close>

definition decr :: "int option \<Rightarrow> int option" where
  "decr c = (case c of None \<Rightarrow> None | Some n \<Rightarrow> Some (n - 1))"

definition increment :: "retry \<Rightarrow> outcome \<Rightarrow> retry option" where
  "increment r out =
     (let new_retry =
        (case out of
           ConnectError \<Rightarrow> r\<lparr>total := total r - 1, connect := decr (connect r), history := history r + 1\<rparr>
         | ReadError \<Rightarrow> r\<lparr>total := total r - 1, read := decr (read r), history := history r + 1\<rparr>
         | OtherError \<Rightarrow> r\<lparr>total := total r - 1, other := decr (other r), history := history r + 1\<rparr>
         | Response st ra body \<Rightarrow>
             r\<lparr>total := total r - 1, status_count := decr (status_count r), history := history r + 1\<rparr>)
      in if is_exhausted new_retry then None else Some new_retry)"

text \<open>
  \<^verbatim>\<open>Retry.get_backoff_time\<close> and \<^verbatim>\<open>Retry.sleep\<close>: the delay of the
  \<^verbatim>\<open>Retry-After\<close> header when it gives a positive one, the backoff otherwise.
\<close>

definition get_backoff_time :: "retry \<Rightarrow> real" where
  "get_backoff_time r =
     (if history r \<le> 1 then 0
      else min 120 (backoff_factor r * 2 ^ (history r - 1)))"

definition sleep_time :: "retry \<Rightarrow> outcome \<Rightarrow> real" where
  "sleep_time r out =
     (case out of
        Response st (Some delay) body \<Rightarrow> if delay > 0 then delay else get_backoff_time r
      | _ \<Rightarrow> get_backoff_time r)"

text \<open>The outcomes after which the request loop asks for another attempt.\<close>

definition retried :: "retry \<Rightarrow> outcome \<Rightarrow> bool" where
  "retried r out =
     (case out of
        Response st ra body \<Rightarrow> is_retry r st (ra \<noteq> None)
      | _ \<Rightarrow> True)"

text \<open>
  \<^verbatim>\<open>session.get\<close>: the request loop of the transport library. \<open>transport n\<close> is
  the outcome of attempt number \<open>n\<close>, counted from 0. The result is the response
  (status and body) or \<open>Inl\<close> for the raised error, with the number of attempts made
  and the delays slept between them.
\<close>

function urlopen ::
  "(nat \<Rightarrow> outcome) \<Rightarrow> retry \<Rightarrow> nat \<Rightarrow> real list \<Rightarrow> (string + nat \<times> string) \<times> nat \<times> real list" where
  "urlopen transport r n slept =
     (case transport n of
        Response st ra body \<Rightarrow>
          if is_retry r st (ra \<noteq> None)
          then (case increment r (Response st ra body) of
                  None \<Rightarrow> (Inl ''MaxRetryError'', n + 1, slept)
                | Some r' \<Rightarrow>
                    urlopen transport r' (n + 1) (slept @ [sleep_time r' (Response st ra body)]))
          else (Inr (st, body), n + 1, slept)
      | err \<Rightarrow>
          (case increment r err of
             None \<Rightarrow> (Inl ''MaxRetryError'', n + 1, slept)
           | Some r' \<Rightarrow> urlopen transport r' (n + 1) (slept @ [sleep_time r' err])))"
  by pat_completeness auto
termination
proof -
  have dec: "nat (total r') < nat (total r)" if "increment r out = Some r'" for r r' out
  proof -
    from that have e: "\<not> is_exhausted r'" and t: "total r' = total r - 1"
      by (auto simp: increment_def Let_def split: if_splits outcome.splits)
    have "0 \<le> total r'"
    proof (rule ccontr)
      assume "\<not> 0 \<le> total r'"
      then have n: "total r' < 0"
        by simp
      let ?cs = "filter (\<lambda>c. c \<noteq> 0)
              (total r' # concat (map (\<lambda>c. case c of None \<Rightarrow> [] | Some n \<Rightarrow> [n])
                 [connect r', read r', redirect r', status_count r', other r']))"
      have m: "total r' \<in> set ?cs"
        using n by simp
      then have "Min (set ?cs) \<le> total r'"
        by (intro Min_le) simp_all
      moreover have "?cs \<noteq> []"
        using m by auto
      ultimately have "is_exhausted r'"
        using n unfolding is_exhausted_def Let_def by (simp only: if_False)
      with e show False
        by simp
    qed
    with t show ?thesis
      by simp
  qed
  show ?thesis
    by (relation "measure (\<lambda>(transport, r, n, slept). nat (total r))") (use dec in auto)
qed

declare urlopen.simps [simp del]
















section \<open>etl\_service.FIDCETLService\<close>

text \<open>
  A row of the result table is a dictionary from column names to values, in insertion
  order. A step of the client either raises, or returns \<^verbatim>\<open>(False, None, erro)\<close>, or
  returns \<^verbatim>\<open>(True, value, None)\<close>.
\<close>

type_synonym row = "(string \<times> pyval) list"

datatype 'a step = Raises string | Fails string | Succeeds 'a

text \<open>
  The client \<^verbatim>\<open>self.api_client\<close>: its four operations, on documents tables of type
  \<open>'d\<close> and contents of type \<open>'x\<close>. A selected document is a dictionary.
\<close>

record ('d, 'x) api_client =
  api_buscar_documentos :: "string \<Rightarrow> 'd step"
  api_filtrar_informe_mensal :: "'d \<Rightarrow> 'd step"
  api_selecionar_documento_mais_recente :: "'d \<Rightarrow> row step"
  api_baixar_xml :: "pyval \<Rightarrow> 'x step"

definition upper :: "string \<Rightarrow> string" where
  "upper s =
     map (\<lambda>c. case map_of (zip ''abcdefghijklmnopqrstuvwxyz'' ''ABCDEFGHIJKLMNOPQRSTUVWXYZ'') c of
                Some u \<Rightarrow> u
              | None \<Rightarrow> c) s"

text \<open>\<^verbatim>\<open>FIDCData.to_dict\<close>: the attributes under their upper-case names.\<close>

definition to_dict :: "fidc_data \<Rightarrow> row" where
  "to_dict dados = foldl (\<lambda>d (k, v). AList.update (upper k) v d) [] dados"

definition error_row :: "string \<Rightarrow> string \<Rightarrow> string \<Rightarrow> row" where
  "error_row cnpj st erro =
     [(''CNPJ_FUNDO'', PStr cnpj), (''STATUS'', PStr st), (''MENSAGEM_ERRO'', PStr erro)]"

text \<open>
  \<^verbatim>\<open>doc.get(key, '')\<close>. A document without the key \<^verbatim>\<open>id\<close> makes \<^verbatim>\<open>doc['id']\<close>
  raise \<^verbatim>\<open>KeyError\<close>, whose message is the quoted key.
\<close>

definition dict_get :: "row \<Rightarrow> string \<Rightarrow> pyval" where
  "dict_get doc k = (case map_of doc k of Some v \<Rightarrow> v | None \<Rightarrow> PStr [])"

definition process_single_cnpj ::
  "('d, 'x) api_client \<Rightarrow> (string \<Rightarrow> pyfloat option) \<Rightarrow> (pyfloat \<Rightarrow> string) \<Rightarrow> ('x \<Rightarrow> string + element)
     \<Rightarrow> string \<Rightarrow> row" where
  "process_single_cnpj client float repr fromstring cnpj =
     (case api_buscar_documentos client cnpj of
        Raises e \<Rightarrow> error_row cnpj ''ERRO_INESPERADO'' e
      | Fails erro \<Rightarrow> error_row cnpj ''ERRO_BUSCA'' erro
      | Succeeds df_docs \<Rightarrow>
     (case api_filtrar_informe_mensal client df_docs of
        Raises e \<Rightarrow> error_row cnpj ''ERRO_INESPERADO'' e
      | Fails erro \<Rightarrow> error_row cnpj ''SEM_INFORME_MENSAL'' erro
      | Succeeds df_mensal \<Rightarrow>
     (case api_selecionar_documento_mais_recente client df_mensal of
        Raises e \<Rightarrow> error_row cnpj ''ERRO_INESPERADO'' e
      | Fails erro \<Rightarrow> error_row cnpj ''ERRO_SELECAO'' erro
      | Succeeds doc \<Rightarrow>
     (case map_of doc ''id'' of
        None \<Rightarrow> error_row cnpj ''ERRO_INESPERADO'' ([CHR 0x27] @ ''id'' @ [CHR 0x27])
      | Some doc_id \<Rightarrow>
     (case api_baixar_xml client doc_id of
        Raises e \<Rightarrow> error_row cnpj ''ERRO_INESPERADO'' e
      | Fails erro \<Rightarrow> error_row cnpj ''ERRO_DOWNLOAD'' erro
      | Succeeds xml_content \<Rightarrow>
     (case parse float repr fromstring xml_content cnpj of
        Inl erro \<Rightarrow> error_row cnpj ''ERRO_PARSE'' erro
      | Inr fidc_data \<Rightarrow>
          (let dados_dict = to_dict fidc_data;
               dados_dict = AList.update ''DATA_REFERENCIA_DOC'' (dict_get doc ''dataReferencia'') dados_dict;
               dados_dict = AList.update ''ID_DOCUMENTO'' (PStr (py_str repr (dict_get doc ''id''))) dados_dict
           in dados_dict)))))))"

text \<open>
  The loop of \<^verbatim>\<open>process_batch\<close>: \<open>n\<close> is \<^verbatim>\<open>len(cnpjs)\<close>, \<open>i\<close> the index of the
  iteration; the state is the list \<^verbatim>\<open>resultados\<close> and the number of delays slept.
\<close>

fun batch_loop :: "(string \<Rightarrow> row) \<Rightarrow> nat \<Rightarrow> nat \<Rightarrow> string list \<Rightarrow> row list \<times> nat \<Rightarrow> row list \<times> nat" where
  "batch_loop process n i [] (resultados, slept) = (resultados, slept)"
| "batch_loop process n i (cnpj # rest) (resultados, slept) =
     batch_loop process n (i + 1) rest
       (resultados @ [process cnpj], if int i < int n - 1 then slept + 1 else slept)"

text \<open>
  \<^verbatim>\<open>pd.DataFrame(resultados)\<close> is represented by the list of its rows; its columns are
  the keys of the rows. \<^verbatim>\<open>df['STATUS']\<close> raises \<^verbatim>\<open>KeyError\<close> on a table without that
  column. The result of \<open>process_batch\<close> is the table or \<open>Inl\<close> of the error raised,
  with the number of delays slept.
\<close>

definition frame_columns :: "row list \<Rightarrow> string list" where
  "frame_columns resultados = remdups (concat (map (map fst) resultados))"

definition process_batch ::
  "('d, 'x) api_client \<Rightarrow> (string \<Rightarrow> pyfloat option) \<Rightarrow> (pyfloat \<Rightarrow> string) \<Rightarrow> ('x \<Rightarrow> string + element)
     \<Rightarrow> string list \<Rightarrow> (string + row list) \<times> nat" where
  "process_batch client float repr fromstring cnpjs =
     (case batch_loop (process_single_cnpj client float repr fromstring) (length cnpjs) 0 cnpjs ([], 0) of
        (resultados, slept) \<Rightarrow>
          if ''STATUS'' \<in> set (frame_columns resultados)
          then (Inr resultados, slept)
          else (Inl ''KeyError: STATUS'', slept))"

text \<open>A client whose discovery fails for every identifier.\<close>

definition offline_client :: "(unit, element) api_client" where
  "offline_client =
     \<lparr>api_buscar_documentos = (\<lambda>cnpj. Fails ''Erro busca: ConnectionError''),
      api_filtrar_informe_mensal = (\<lambda>d. Succeeds d),
      api_selecionar_documento_mais_recente = (\<lambda>d. Fails ''DataFrame vazio''),
      api_baixar_xml = (\<lambda>i. Fails ''Erro download'')\<rparr>"

section \<open>Tables\<close>

text \<open>
  A table has an index of labels and named columns of the length of the index. A column
  is numeric (its values are floats, NaN for a missing value) or holds objects.
  The columns are the map of the association list \<open>columns\<close>.
\<close>

datatype column = NumCol "pyfloat list" | ObjCol "pyval list"

record dataframe =
  index :: "pyval list"
  columns :: "(string \<times> column) list"

definition is_numeric_dtype :: "column \<Rightarrow> bool" where
  "is_numeric_dtype col = (case col of NumCol vs \<Rightarrow> True | ObjCol cs \<Rightarrow> False)"

section \<open>data\_cleaner.convert\_numeric\_columns\<close>

text \<open>The cells that match \<^verbatim>\<open>^\s*-\s*$\<close>.\<close>

definition is_dash :: "string \<Rightarrow> bool" where
  "is_dash s =
     (case dropWhile isspace s of
        [] \<Rightarrow> False
      | c # rest \<Rightarrow> c = CHR ''-'' \<and> list_all isspace rest)"

text \<open>
  One column of the loop. \<^verbatim>\<open>pd.to_numeric\<close> leaves a numeric column as it is; on a
  text it is the parameter \<open>to_numeric\<close>, which returns NaN where
  \<^verbatim>\<open>errors='coerce'\<close> gives the missing value.
\<close>

definition convert_column ::
  "(string \<Rightarrow> pyfloat) \<Rightarrow> (pyfloat \<Rightarrow> string) \<Rightarrow> bool \<Rightarrow> column \<Rightarrow> column" where
  "convert_column to_numeric repr replace_dash col =
     (if is_numeric_dtype col then col
      else (case col of
              NumCol vs \<Rightarrow> NumCol vs
            | ObjCol cs \<Rightarrow>
                NumCol (map (\<lambda>c. let s = py_str repr c;
                                     s = (if replace_dash \<and> is_dash s then ''0'' else s)
                                 in to_numeric s) cs)))"

definition convert_numeric_columns ::
  "(string \<Rightarrow> pyfloat) \<Rightarrow> (pyfloat \<Rightarrow> string) \<Rightarrow> dataframe \<Rightarrow> string list \<Rightarrow> bool \<Rightarrow> dataframe" where
  "convert_numeric_columns to_numeric repr df cols replace_dash =
     foldl (\<lambda>df_copy col.
              case map_of (columns df_copy) col of
                Some c \<Rightarrow>
                  df_copy\<lparr>columns :=
                    AList.update col (convert_column to_numeric repr replace_dash c) (columns df_copy)\<rparr>
              | None \<Rightarrow> df_copy)
       df cols"

definition npl_table :: dataframe where
  "npl_table =
     \<lparr>index = [PFloat (Finite 0)],
      columns = [(''CNPJ_FUNDO'', ObjCol [PStr ''51114682000102'']),
                 (''INDICE_NPL_DECIMAL'', NumCol [Finite (315 / 10 ^ 12)]),
                 (''ATIVO_TOTAL'', ObjCol [PStr ''-''])]\<rparr>"

section \<open>diff\_generator.DiffGenerator.generate\_diff\_report\<close>

text \<open>\<^verbatim>\<open>df.set_index(name)\<close>: the values of the column become the labels.\<close>

definition labels :: "column \<Rightarrow> pyval list" where
  "labels col =
     (case col of
        NumCol vs \<Rightarrow> map PFloat vs
      | ObjCol cs \<Rightarrow> cs)"

definition set_index :: "string \<Rightarrow> dataframe \<Rightarrow> dataframe" where
  "set_index name df =
     (case map_of (columns df) name of
        None \<Rightarrow> df
      | Some col \<Rightarrow> \<lparr>index = labels col, columns = AList.delete name (columns df)\<rparr>)"

text \<open>
  \<^verbatim>\<open>df.set_index('CNPJ_FUNDO') if 'CNPJ_FUNDO' in df.columns else df\<close>, as the report
  does for both tables.
\<close>

definition indexed :: "dataframe \<Rightarrow> dataframe" where
  "indexed df = (if ''CNPJ_FUNDO'' \<in> set (map fst (columns df)) then set_index ''CNPJ_FUNDO'' df else df)"

text \<open>\<^verbatim>\<open>df.select_dtypes(include=np.number).columns\<close>.\<close>

definition numeric_columns :: "dataframe \<Rightarrow> string list" where
  "numeric_columns df =
     filter (\<lambda>name. case map_of (columns df) name of Some (NumCol vs) \<Rightarrow> True | _ \<Rightarrow> False)
       (remdups (map fst (columns df)))"

text \<open>
  \<^verbatim>\<open>df.loc[cnpj, col]\<close> on a numeric column: the values of the rows labelled \<open>cnpj\<close>. It
  is a scalar when there is one such row; with more rows it is a series, whose truth
  value raises \<^verbatim>\<open>ValueError\<close>.
\<close>

definition loc :: "dataframe \<Rightarrow> pyval \<Rightarrow> string \<Rightarrow> pyfloat list" where
  "loc df cnpj col =
     (case map_of (columns df) col of
        Some (NumCol vs) \<Rightarrow> map snd (filter (\<lambda>(k, v). k = cnpj) (zip (index df) vs))
      | _ \<Rightarrow> [])"

definition scalar :: "pyfloat list \<Rightarrow> string + pyfloat" where
  "scalar vs =
     (case vs of
        [v] \<Rightarrow> Inr v
      | _ \<Rightarrow> Inl ''ValueError: The truth value of a Series is ambiguous'')"

type_synonym diff_record = "pyval \<times> string \<times> pyfloat"

text \<open>One pair of values of the loop; \<^verbatim>\<open>pd.isna\<close> holds of NaN alone.\<close>

definition diff_cell :: "pyval \<Rightarrow> string \<Rightarrow> pyfloat \<Rightarrow> pyfloat \<Rightarrow> diff_record list" where
  "diff_cell cnpj col val_v1 val_v2 =
     (if val_v1 = NaN \<and> val_v2 = NaN then []
      else (let diff = (if val_v1 = NaN then val_v2
                        else if val_v2 = NaN then py_neg val_v1
                        else py_sub val_v2 val_v1)
            in if py_ne diff (Finite 0) then [(cnpj, col, diff)] else []))"

fun diff_cols :: "dataframe \<Rightarrow> dataframe \<Rightarrow> pyval \<Rightarrow> string list \<Rightarrow> string + diff_record list" where
  "diff_cols v1 v2 cnpj [] = Inr []"
| "diff_cols v1 v2 cnpj (col # cols) =
     bind_exn (scalar (loc v1 cnpj col)) (\<lambda>val_v1.
     bind_exn (scalar (loc v2 cnpj col)) (\<lambda>val_v2.
     bind_exn (diff_cols v1 v2 cnpj cols) (\<lambda>rest.
       Inr (diff_cell cnpj col val_v1 val_v2 @ rest))))"

fun diff_rows :: "dataframe \<Rightarrow> dataframe \<Rightarrow> pyval list \<Rightarrow> string list \<Rightarrow> string + diff_record list" where
  "diff_rows v1 v2 [] cols = Inr []"
| "diff_rows v1 v2 (cnpj # cnpjs) cols =
     bind_exn (diff_cols v1 v2 cnpj cols) (\<lambda>recs.
     bind_exn (diff_rows v1 v2 cnpjs cols) (\<lambda>rest. Inr (recs @ rest)))"

text \<open>
  The report with \<^verbatim>\<open>output_file=None\<close>: the records of the result table, or \<open>Inl\<close>
  of the error raised. The common labels and columns come from Python sets, whose order
  is not specified; the order chosen here is that of the first table. Labels are
  compared by equality of their values; a label that is NaN is outside this development.
\<close>

definition generate_diff_report :: "dataframe \<Rightarrow> dataframe \<Rightarrow> string + diff_record list" where
  "generate_diff_report df_v1 df_v2 =
     (let df_v1_indexed = indexed df_v1;
          df_v2_indexed = indexed df_v2;
          common_cnpjs = remdups (filter (\<lambda>k. k \<in> set (index df_v2_indexed)) (index df_v1_indexed))
      in if common_cnpjs = [] then Inr []
         else (let common_numeric_cols =
                     filter (\<lambda>c. c \<in> set (numeric_columns df_v2_indexed))
                       (numeric_columns df_v1_indexed)
               in if common_numeric_cols = [] then Inr []
                  else diff_rows df_v1_indexed df_v2_indexed common_cnpjs common_numeric_cols))"

text \<open>
  The delta of the specification for one pair of values: nothing when both are missing,
  \<open>v2\<close> when only \<open>v1\<close> is missing, \<open>- v1\<close> when only \<open>v2\<close> is missing, \<open>v2 - v1\<close>
  otherwise.
\<close>

definition spec_delta :: "pyfloat \<Rightarrow> pyfloat \<Rightarrow> pyfloat option" where
  "spec_delta v1 v2 =
     (if v1 = NaN \<and> v2 = NaN then None
      else if v1 = NaN then Some v2
      else if v2 = NaN then Some (py_neg v1)
      else Some (py_sub v2 v1))"

text \<open>A table is well formed when every column has the length of the index.\<close>

definition column_length :: "column \<Rightarrow> nat" where
  "column_length col = (case col of NumCol vs \<Rightarrow> length vs | ObjCol cs \<Rightarrow> length cs)"

definition well_formed :: "dataframe \<Rightarrow> bool" where
  "well_formed df = list_all (\<lambda>(name, col). column_length col = length (index df)) (columns df)"

definition table_v1 :: dataframe where
  "table_v1 =
     \<lparr>index = [PFloat (Finite 0), PFloat (Finite 1)],
      columns = [(''CNPJ_FUNDO'', ObjCol [PStr ''A'', PStr ''B'']),
                 (''ATIVO_TOTAL'', NumCol [Finite 10, NaN]),
                 (''CARTEIRA_TOTAL'', NumCol [Finite 7, NaN]),
                 (''STATUS'', ObjCol [PStr ''SUCESSO'', PStr ''SUCESSO''])]\<rparr>"

definition table_v2 :: dataframe where
  "table_v2 =
     \<lparr>index = [PFloat (Finite 0), PFloat (Finite 1), PFloat (Finite 2)],
      columns = [(''CNPJ_FUNDO'', ObjCol [PStr ''B'', PStr ''A'', PStr ''C'']),
                 (''ATIVO_TOTAL'', NumCol [Finite 5, Finite 12, Finite 1]),
                 (''CARTEIRA_TOTAL'', NumCol [NaN, Finite 7, Finite 1]),
                 (''STATUS'', ObjCol [PStr ''SUCESSO'', PStr ''SUCESSO'', PStr ''SUCESSO''])]\<rparr>"

text \<open>A table in which the identifier \<^verbatim>\<open>A\<close> labels two rows, and a table to compare it with.\<close>

definition table_dup :: dataframe where
  "table_dup =
     \<lparr>index = [PFloat (Finite 0), PFloat (Finite 1)],
      columns = [(''CNPJ_FUNDO'', ObjCol [PStr ''A'', PStr ''A'']),
                 (''ATIVO_TOTAL'', NumCol [Finite 10, Finite 11])]\<rparr>"

definition table_one :: dataframe where
  "table_one =
     \<lparr>index = [PFloat (Finite 0)],
      columns = [(''CNPJ_FUNDO'', ObjCol [PStr ''A'']),
                 (''ATIVO_TOTAL'', NumCol [Finite 12])]\<rparr>"


section \<open>Properties\<close>

lemma getattr_setattr:
  "getattr (setattr d n v) m = (if m = n then Inr v else getattr d m)"
  by (simp add: getattr_def setattr_def update_conv')

lemma py_truediv_pos: "py_gt b (Finite 0) \<Longrightarrow> py_truediv a b = Inr (ieee_div a b)"
  by (auto simp add: py_truediv_def py_gt_def)

lemma py_truediv_100: "py_truediv a (Finite 100) = Inr (ieee_div a (Finite 100))"
  by (simp add: py_truediv_def)

lemma set_npl_Inr:
  "\<exists>d'. set_npl c i d = Inr d' \<and>
     (\<forall>m. getattr d' m =
       (if m = ''indice_npl_percentual''
        then Inr (PFloat (if py_gt c (Finite 0) \<and> py_gt i (Finite 0)
                          then py_mul (ieee_div i c) (Finite 100) else Finite 0))
        else if m = ''indice_npl_decimal''
        then Inr (PFloat (if py_gt c (Finite 0) \<and> py_gt i (Finite 0)
                          then py_min (ieee_div (py_mul (ieee_div i c) (Finite 100)) (Finite 100)) (Finite 1)
                          else Finite 0))
        else getattr d m))"
  by (cases "py_gt c (Finite 0)"; cases "py_gt i (Finite 0)")
    (simp_all add: set_npl_def Let_def bind_exn_def py_truediv_pos py_truediv_100 getattr_setattr)

lemma set_ratio_Inr:
  "p \<noteq> q \<Longrightarrow> \<exists>d'. set_ratio p q n a d = Inr d' \<and>
     (\<forall>m. getattr d' m =
       (if m = q then Inr (PFloat (if py_gt a (Finite 0)
                                   then ieee_div (py_mul (ieee_div n a) (Finite 100)) (Finite 100)
                                   else Finite 0))
        else if m = p then Inr (PFloat (if py_gt a (Finite 0)
                                        then py_mul (ieee_div n a) (Finite 100) else Finite 0))
        else getattr d m))"
  by (cases "py_gt a (Finite 0)")
    (simp_all add: set_ratio_def Let_def bind_exn_def py_truediv_pos py_truediv_100 getattr_setattr)

lemma map_of_fold_update:
  "map_of (foldl (\<lambda>d (n, p). AList.update n (f p) d) d0 xs) k =
     (case map_of (rev xs) k of Some p \<Rightarrow> Some (f p) | None \<Rightarrow> map_of d0 k)"
proof (induction xs arbitrary: d0)
  case Nil
  show ?case by simp
next
  case (Cons x xs)
  obtain n p where x: "x = (n, p)" by (cases x)
  show ?case
    by (simp add: Cons.IH x update_conv' map_add_def split: option.splits)
qed

lemma getattr_set_numeric_fields:
  "getattr (set_numeric_fields float r d) name =
     (case map_of (rev numeric_fields) name of
        Some p \<Rightarrow> Inr (buscar_valor_xml float r p)
      | None \<Rightarrow> getattr d name)"
  unfolding set_numeric_fields_def setattr_def getattr_def
  by (simp add: map_of_fold_update split: option.splits)

lemma rev_numeric_lookups:
  "map_of (rev numeric_fields) ''cred_inadimplencia'' = Some ''CRED_EXISTE/VL_CRED_EXISTE_INAD''"
  "map_of (rev numeric_fields) ''dicred_inadimplencia'' = Some ''DICRED/VL_DICRED_EXISTE_INAD''"
  "map_of (rev numeric_fields) ''creditos_adquiridos'' = Some ''CRED_EXISTE/VL_SOM_DICRED_AQUIS''"
  "map_of (rev numeric_fields) ''ativo_total'' = Some ''VL_SOM_APLIC_ATIVO''"
  "map_of (rev numeric_fields) ''disponibilidades'' = Some ''VL_DISPONIB''"
  "map_of (rev numeric_fields) ''cnpj_fundo'' = None"
  by (simp_all add: numeric_fields_def)

lemma numeric_paths:
  "\<not> is_text_path ''CRED_EXISTE/VL_CRED_EXISTE_INAD''" "is_numeric_path ''CRED_EXISTE/VL_CRED_EXISTE_INAD''"
  "\<not> is_text_path ''DICRED/VL_DICRED_EXISTE_INAD''" "is_numeric_path ''DICRED/VL_DICRED_EXISTE_INAD''"
  "\<not> is_text_path ''CRED_EXISTE/VL_SOM_DICRED_AQUIS''" "is_numeric_path ''CRED_EXISTE/VL_SOM_DICRED_AQUIS''"
  "\<not> is_text_path ''VL_SOM_APLIC_ATIVO''" "is_numeric_path ''VL_SOM_APLIC_ATIVO''"
  "\<not> is_text_path ''VL_DISPONIB''" "is_numeric_path ''VL_DISPONIB''"
  by (simp_all add: is_text_path_def is_numeric_path_def text_markers_def)

lemma buscar_PFloat:
  "\<not> is_text_path p \<Longrightarrow> is_numeric_path p \<Longrightarrow> \<exists>v. buscar_valor_xml float r p = PFloat v"
  by (simp add: buscar_valor_xml_def Let_def)

lemma float_or_zero_PFloat: "float_or_zero float (PFloat v) = Inr v"
  by (simp add: float_or_zero_def)

lemma set_indicators_Inr:
  assumes "getattr d ''cred_inadimplencia'' = Inr (PFloat a)"
    and "getattr d ''dicred_inadimplencia'' = Inr (PFloat b)"
    and "getattr d ''creditos_adquiridos'' = Inr (PFloat c)"
    and "getattr d ''ativo_total'' = Inr (PFloat t)"
    and "getattr d ''disponibilidades'' = Inr (PFloat l)"
  shows "\<exists>d'. set_indicators float d = Inr d' \<and>
     (\<forall>m. getattr d' m =
        (if m = ''status'' then Inr (PStr ''SUCESSO'')
         else if m = ''concentracao_credito_decimal''
           then Inr (PFloat (if py_gt t (Finite 0)
                             then ieee_div (py_mul (ieee_div c t) (Finite 100)) (Finite 100) else Finite 0))
         else if m = ''concentracao_credito_percentual''
           then Inr (PFloat (if py_gt t (Finite 0) then py_mul (ieee_div c t) (Finite 100) else Finite 0))
         else if m = ''taxa_liquidez_decimal''
           then Inr (PFloat (if py_gt t (Finite 0)
                             then ieee_div (py_mul (ieee_div l t) (Finite 100)) (Finite 100) else Finite 0))
         else if m = ''taxa_liquidez_percentual''
           then Inr (PFloat (if py_gt t (Finite 0) then py_mul (ieee_div l t) (Finite 100) else Finite 0))
         else if m = ''indice_npl_percentual''
           then Inr (PFloat (if py_gt c (Finite 0) \<and> py_gt (py_max a b) (Finite 0)
                             then py_mul (ieee_div (py_max a b) c) (Finite 100) else Finite 0))
         else if m = ''indice_npl_decimal''
           then Inr (PFloat (if py_gt c (Finite 0) \<and> py_gt (py_max a b) (Finite 0)
                             then py_min (ieee_div (py_mul (ieee_div (py_max a b) c) (Finite 100)) (Finite 100))
                                    (Finite 1)
                             else Finite 0))
         else if m = ''carteira_bruta'' then Inr (PFloat c)
         else if m = ''inadimplencia_total'' then Inr (PFloat (py_max a b))
         else getattr d m))"
proof -
  let ?d1 = "setattr (setattr d ''inadimplencia_total'' (PFloat (py_max a b)))
               ''carteira_bruta'' (PFloat c)"
  obtain d2 where d2: "set_npl c (py_max a b) ?d1 = Inr d2"
    and g2: "\<forall>m. getattr d2 m =
       (if m = ''indice_npl_percentual''
        then Inr (PFloat (if py_gt c (Finite 0) \<and> py_gt (py_max a b) (Finite 0)
                          then py_mul (ieee_div (py_max a b) c) (Finite 100) else Finite 0))
        else if m = ''indice_npl_decimal''
        then Inr (PFloat (if py_gt c (Finite 0) \<and> py_gt (py_max a b) (Finite 0)
                          then py_min (ieee_div (py_mul (ieee_div (py_max a b) c) (Finite 100)) (Finite 100)) (Finite 1)
                          else Finite 0))
        else getattr ?d1 m)"
    using set_npl_Inr [of c "py_max a b" ?d1] by blast
  obtain d3 where d3: "set_ratio ''taxa_liquidez_percentual'' ''taxa_liquidez_decimal'' l t d2 = Inr d3"
    and g3: "\<forall>m. getattr d3 m =
       (if m = ''taxa_liquidez_decimal''
        then Inr (PFloat (if py_gt t (Finite 0)
                          then ieee_div (py_mul (ieee_div l t) (Finite 100)) (Finite 100)
                          else Finite 0))
        else if m = ''taxa_liquidez_percentual''
        then Inr (PFloat (if py_gt t (Finite 0)
                          then py_mul (ieee_div l t) (Finite 100) else Finite 0))
        else getattr d2 m)"
    using set_ratio_Inr [of "''taxa_liquidez_percentual''" "''taxa_liquidez_decimal''" l t d2]
    by auto
  obtain d4 where d4: "set_ratio ''concentracao_credito_percentual'' ''concentracao_credito_decimal'' c t d3 = Inr d4"
    and g4: "\<forall>m. getattr d4 m =
       (if m = ''concentracao_credito_decimal''
        then Inr (PFloat (if py_gt t (Finite 0)
                          then ieee_div (py_mul (ieee_div c t) (Finite 100)) (Finite 100)
                          else Finite 0))
        else if m = ''concentracao_credito_percentual''
        then Inr (PFloat (if py_gt t (Finite 0)
                          then py_mul (ieee_div c t) (Finite 100) else Finite 0))
        else getattr d3 m)"
    using set_ratio_Inr [of "''concentracao_credito_percentual''" "''concentracao_credito_decimal''" c t d3]
    by auto
  have r2: "getattr d2 ''ativo_total'' = Inr (PFloat t)"
    "getattr d2 ''disponibilidades'' = Inr (PFloat l)"
    by (simp_all add: g2 getattr_setattr assms)
  have e: "set_indicators float d = Inr (setattr d4 ''status'' (PStr ''SUCESSO''))"
    by (simp add: set_indicators_def float_attr_def bind_exn_def Let_def getattr_setattr
        float_or_zero_PFloat assms d2 r2 d3 d4)
  have "getattr (setattr d4 ''status'' (PStr ''SUCESSO'')) m =
        (if m = ''status'' then Inr (PStr ''SUCESSO'')
         else if m = ''concentracao_credito_decimal''
           then Inr (PFloat (if py_gt t (Finite 0)
                             then ieee_div (py_mul (ieee_div c t) (Finite 100)) (Finite 100) else Finite 0))
         else if m = ''concentracao_credito_percentual''
           then Inr (PFloat (if py_gt t (Finite 0) then py_mul (ieee_div c t) (Finite 100) else Finite 0))
         else if m = ''taxa_liquidez_decimal''
           then Inr (PFloat (if py_gt t (Finite 0)
                             then ieee_div (py_mul (ieee_div l t) (Finite 100)) (Finite 100) else Finite 0))
         else if m = ''taxa_liquidez_percentual''
           then Inr (PFloat (if py_gt t (Finite 0) then py_mul (ieee_div l t) (Finite 100) else Finite 0))
         else if m = ''indice_npl_percentual''
           then Inr (PFloat (if py_gt c (Finite 0) \<and> py_gt (py_max a b) (Finite 0)
                             then py_mul (ieee_div (py_max a b) c) (Finite 100) else Finite 0))
         else if m = ''indice_npl_decimal''
           then Inr (PFloat (if py_gt c (Finite 0) \<and> py_gt (py_max a b) (Finite 0)
                             then py_min (ieee_div (py_mul (ieee_div (py_max a b) c) (Finite 100)) (Finite 100))
                                    (Finite 1)
                             else Finite 0))
         else if m = ''carteira_bruta'' then Inr (PFloat c)
         else if m = ''inadimplencia_total'' then Inr (PFloat (py_max a b))
         else getattr d m)" for m
    by (simp only: getattr_setattr g4 g3 g2 list.inject char.inject simp_thms if_True if_False)
  with e show ?thesis
    by blast
qed

lemma parse_Inr:
  assumes "fromstring x = Inr r"
  shows "\<exists>dados a b c t l.
     parse float repr fromstring x fb = Inr dados \<and>
     buscar_valor_xml float r ''CRED_EXISTE/VL_CRED_EXISTE_INAD'' = PFloat a \<and>
     buscar_valor_xml float r ''DICRED/VL_DICRED_EXISTE_INAD'' = PFloat b \<and>
     buscar_valor_xml float r ''CRED_EXISTE/VL_SOM_DICRED_AQUIS'' = PFloat c \<and>
     buscar_valor_xml float r ''VL_SOM_APLIC_ATIVO'' = PFloat t \<and>
     buscar_valor_xml float r ''VL_DISPONIB'' = PFloat l \<and>
     (\<forall>m. getattr dados m =
        (if m = ''status'' then Inr (PStr ''SUCESSO'')
         else if m = ''concentracao_credito_decimal''
           then Inr (PFloat (if py_gt t (Finite 0)
                             then ieee_div (py_mul (ieee_div c t) (Finite 100)) (Finite 100) else Finite 0))
         else if m = ''concentracao_credito_percentual''
           then Inr (PFloat (if py_gt t (Finite 0) then py_mul (ieee_div c t) (Finite 100) else Finite 0))
         else if m = ''taxa_liquidez_decimal''
           then Inr (PFloat (if py_gt t (Finite 0)
                             then ieee_div (py_mul (ieee_div l t) (Finite 100)) (Finite 100) else Finite 0))
         else if m = ''taxa_liquidez_percentual''
           then Inr (PFloat (if py_gt t (Finite 0) then py_mul (ieee_div l t) (Finite 100) else Finite 0))
         else if m = ''indice_npl_percentual''
           then Inr (PFloat (if py_gt c (Finite 0) \<and> py_gt (py_max a b) (Finite 0)
                             then py_mul (ieee_div (py_max a b) c) (Finite 100) else Finite 0))
         else if m = ''indice_npl_decimal''
           then Inr (PFloat (if py_gt c (Finite 0) \<and> py_gt (py_max a b) (Finite 0)
                             then py_min (ieee_div (py_mul (ieee_div (py_max a b) c) (Finite 100)) (Finite 100))
                                    (Finite 1)
                             else Finite 0))
         else if m = ''carteira_bruta'' then Inr (PFloat c)
         else if m = ''inadimplencia_total'' then Inr (PFloat (py_max a b))
         else getattr (set_numeric_fields float r (set_identification float repr r fb FIDCData)) m))"
proof -
  let ?d = "set_numeric_fields float r (set_identification float repr r fb FIDCData)"
  obtain a where a: "buscar_valor_xml float r ''CRED_EXISTE/VL_CRED_EXISTE_INAD'' = PFloat a"
    using buscar_PFloat numeric_paths(1,2) by blast
  obtain b where b: "buscar_valor_xml float r ''DICRED/VL_DICRED_EXISTE_INAD'' = PFloat b"
    using buscar_PFloat numeric_paths(3,4) by blast
  obtain c where c: "buscar_valor_xml float r ''CRED_EXISTE/VL_SOM_DICRED_AQUIS'' = PFloat c"
    using buscar_PFloat numeric_paths(5,6) by blast
  obtain t where t: "buscar_valor_xml float r ''VL_SOM_APLIC_ATIVO'' = PFloat t"
    using buscar_PFloat numeric_paths(7,8) by blast
  obtain l where l: "buscar_valor_xml float r ''VL_DISPONIB'' = PFloat l"
    using buscar_PFloat numeric_paths(9,10) by blast
  have g: "getattr ?d ''cred_inadimplencia'' = Inr (PFloat a)"
    "getattr ?d ''dicred_inadimplencia'' = Inr (PFloat b)"
    "getattr ?d ''creditos_adquiridos'' = Inr (PFloat c)"
    "getattr ?d ''ativo_total'' = Inr (PFloat t)"
    "getattr ?d ''disponibilidades'' = Inr (PFloat l)"
    by (simp_all add: getattr_set_numeric_fields rev_numeric_lookups a b c t l)
  obtain f where f: "set_indicators float ?d = Inr f"
    and m: "\<forall>m. getattr f m =
        (if m = ''status'' then Inr (PStr ''SUCESSO'')
         else if m = ''concentracao_credito_decimal''
           then Inr (PFloat (if py_gt t (Finite 0)
                             then ieee_div (py_mul (ieee_div c t) (Finite 100)) (Finite 100) else Finite 0))
         else if m = ''concentracao_credito_percentual''
           then Inr (PFloat (if py_gt t (Finite 0) then py_mul (ieee_div c t) (Finite 100) else Finite 0))
         else if m = ''taxa_liquidez_decimal''
           then Inr (PFloat (if py_gt t (Finite 0)
                             then ieee_div (py_mul (ieee_div l t) (Finite 100)) (Finite 100) else Finite 0))
         else if m = ''taxa_liquidez_percentual''
           then Inr (PFloat (if py_gt t (Finite 0) then py_mul (ieee_div l t) (Finite 100) else Finite 0))
         else if m = ''indice_npl_percentual''
           then Inr (PFloat (if py_gt c (Finite 0) \<and> py_gt (py_max a b) (Finite 0)
                             then py_mul (ieee_div (py_max a b) c) (Finite 100) else Finite 0))
         else if m = ''indice_npl_decimal''
           then Inr (PFloat (if py_gt c (Finite 0) \<and> py_gt (py_max a b) (Finite 0)
                             then py_min (ieee_div (py_mul (ieee_div (py_max a b) c) (Finite 100)) (Finite 100))
                                    (Finite 1)
                             else Finite 0))
         else if m = ''carteira_bruta'' then Inr (PFloat c)
         else if m = ''inadimplencia_total'' then Inr (PFloat (py_max a b))
         else getattr ?d m)"
    using set_indicators_Inr [of ?d a b c t l float, OF g] by blast
  have p: "parse float repr fromstring x fb = Inr f"
    by (simp add: parse_def assms f)
  with m a b c t l show ?thesis
    by blast
qed

lemma parse_attrs:
  assumes "fromstring x = Inr r" and "parse float repr fromstring x fb = Inr dados"
  shows "\<exists>a b c t l.
     buscar_valor_xml float r ''CRED_EXISTE/VL_CRED_EXISTE_INAD'' = PFloat a \<and>
     buscar_valor_xml float r ''DICRED/VL_DICRED_EXISTE_INAD'' = PFloat b \<and>
     buscar_valor_xml float r ''CRED_EXISTE/VL_SOM_DICRED_AQUIS'' = PFloat c \<and>
     buscar_valor_xml float r ''VL_SOM_APLIC_ATIVO'' = PFloat t \<and>
     buscar_valor_xml float r ''VL_DISPONIB'' = PFloat l \<and>
     (\<forall>m. getattr dados m =
        (if m = ''status'' then Inr (PStr ''SUCESSO'')
         else if m = ''concentracao_credito_decimal''
           then Inr (PFloat (if py_gt t (Finite 0)
                             then ieee_div (py_mul (ieee_div c t) (Finite 100)) (Finite 100) else Finite 0))
         else if m = ''concentracao_credito_percentual''
           then Inr (PFloat (if py_gt t (Finite 0) then py_mul (ieee_div c t) (Finite 100) else Finite 0))
         else if m = ''taxa_liquidez_decimal''
           then Inr (PFloat (if py_gt t (Finite 0)
                             then ieee_div (py_mul (ieee_div l t) (Finite 100)) (Finite 100) else Finite 0))
         else if m = ''taxa_liquidez_percentual''
           then Inr (PFloat (if py_gt t (Finite 0) then py_mul (ieee_div l t) (Finite 100) else Finite 0))
         else if m = ''indice_npl_percentual''
           then Inr (PFloat (if py_gt c (Finite 0) \<and> py_gt (py_max a b) (Finite 0)
                             then py_mul (ieee_div (py_max a b) c) (Finite 100) else Finite 0))
         else if m = ''indice_npl_decimal''
           then Inr (PFloat (if py_gt c (Finite 0) \<and> py_gt (py_max a b) (Finite 0)
                             then py_min (ieee_div (py_mul (ieee_div (py_max a b) c) (Finite 100)) (Finite 100))
                                    (Finite 1)
                             else Finite 0))
         else if m = ''carteira_bruta'' then Inr (PFloat c)
         else if m = ''inadimplencia_total'' then Inr (PFloat (py_max a b))
         else getattr (set_numeric_fields float r (set_identification float repr r fb FIDCData)) m))"
proof -
  obtain d a b c t l where "parse float repr fromstring x fb = Inr d"
    and f: "buscar_valor_xml float r ''CRED_EXISTE/VL_CRED_EXISTE_INAD'' = PFloat a \<and>
     buscar_valor_xml float r ''DICRED/VL_DICRED_EXISTE_INAD'' = PFloat b \<and>
     buscar_valor_xml float r ''CRED_EXISTE/VL_SOM_DICRED_AQUIS'' = PFloat c \<and>
     buscar_valor_xml float r ''VL_SOM_APLIC_ATIVO'' = PFloat t \<and>
     buscar_valor_xml float r ''VL_DISPONIB'' = PFloat l"
    and m: "(\<forall>m. getattr d m =
        (if m = ''status'' then Inr (PStr ''SUCESSO'')
         else if m = ''concentracao_credito_decimal''
           then Inr (PFloat (if py_gt t (Finite 0)
                             then ieee_div (py_mul (ieee_div c t) (Finite 100)) (Finite 100) else Finite 0))
         else if m = ''concentracao_credito_percentual''
           then Inr (PFloat (if py_gt t (Finite 0) then py_mul (ieee_div c t) (Finite 100) else Finite 0))
         else if m = ''taxa_liquidez_decimal''
           then Inr (PFloat (if py_gt t (Finite 0)
                             then ieee_div (py_mul (ieee_div l t) (Finite 100)) (Finite 100) else Finite 0))
         else if m = ''taxa_liquidez_percentual''
           then Inr (PFloat (if py_gt t (Finite 0) then py_mul (ieee_div l t) (Finite 100) else Finite 0))
         else if m = ''indice_npl_percentual''
           then Inr (PFloat (if py_gt c (Finite 0) \<and> py_gt (py_max a b) (Finite 0)
                             then py_mul (ieee_div (py_max a b) c) (Finite 100) else Finite 0))
         else if m = ''indice_npl_decimal''
           then Inr (PFloat (if py_gt c (Finite 0) \<and> py_gt (py_max a b) (Finite 0)
                             then py_min (ieee_div (py_mul (ieee_div (py_max a b) c) (Finite 100)) (Finite 100))
                                    (Finite 1)
                             else Finite 0))
         else if m = ''carteira_bruta'' then Inr (PFloat c)
         else if m = ''inadimplencia_total'' then Inr (PFloat (py_max a b))
         else getattr (set_numeric_fields float r (set_identification float repr r fb FIDCData)) m))"
    using parse_Inr [of fromstring x r float repr fb] assms(1) by blast
  with assms(2) have "d = dados"
    by simp
  with f m show ?thesis
    by blast
qed

lemma parse_attr_other:
  assumes "fromstring x = Inr r" and "parse float repr fromstring x fb = Inr dados"
    and "name \<notin> set [''status'', ''concentracao_credito_decimal'',
           ''concentracao_credito_percentual'', ''taxa_liquidez_decimal'',
           ''taxa_liquidez_percentual'', ''indice_npl_percentual'', ''indice_npl_decimal'',
           ''carteira_bruta'', ''inadimplencia_total'']"
  shows "getattr dados name =
     getattr (set_numeric_fields float r (set_identification float repr r fb FIDCData)) name"
proof -
  obtain a b c t l where m: "(\<forall>m. getattr dados m =
        (if m = ''status'' then Inr (PStr ''SUCESSO'')
         else if m = ''concentracao_credito_decimal''
           then Inr (PFloat (if py_gt t (Finite 0)
                             then ieee_div (py_mul (ieee_div c t) (Finite 100)) (Finite 100) else Finite 0))
         else if m = ''concentracao_credito_percentual''
           then Inr (PFloat (if py_gt t (Finite 0) then py_mul (ieee_div c t) (Finite 100) else Finite 0))
         else if m = ''taxa_liquidez_decimal''
           then Inr (PFloat (if py_gt t (Finite 0)
                             then ieee_div (py_mul (ieee_div l t) (Finite 100)) (Finite 100) else Finite 0))
         else if m = ''taxa_liquidez_percentual''
           then Inr (PFloat (if py_gt t (Finite 0) then py_mul (ieee_div l t) (Finite 100) else Finite 0))
         else if m = ''indice_npl_percentual''
           then Inr (PFloat (if py_gt c (Finite 0) \<and> py_gt (py_max a b) (Finite 0)
                             then py_mul (ieee_div (py_max a b) c) (Finite 100) else Finite 0))
         else if m = ''indice_npl_decimal''
           then Inr (PFloat (if py_gt c (Finite 0) \<and> py_gt (py_max a b) (Finite 0)
                             then py_min (ieee_div (py_mul (ieee_div (py_max a b) c) (Finite 100)) (Finite 100))
                                    (Finite 1)
                             else Finite 0))
         else if m = ''carteira_bruta'' then Inr (PFloat c)
         else if m = ''inadimplencia_total'' then Inr (PFloat (py_max a b))
         else getattr (set_numeric_fields float r (set_identification float repr r fb FIDCData)) m))"
    using parse_attrs [of fromstring x r float repr fb dados] assms(1,2) by blast
  show ?thesis
    using m [rule_format, of name] assms(3) by simp
qed

lemma parse_indicator_attrs:
  assumes "fromstring x = Inr r" and "parse float repr fromstring x fb = Inr dados"
  shows "\<exists>a b c.
     buscar_valor_xml float r ''CRED_EXISTE/VL_CRED_EXISTE_INAD'' = PFloat a \<and>
     buscar_valor_xml float r ''DICRED/VL_DICRED_EXISTE_INAD'' = PFloat b \<and>
     buscar_valor_xml float r ''CRED_EXISTE/VL_SOM_DICRED_AQUIS'' = PFloat c \<and>
     getattr dados ''status'' = Inr (PStr ''SUCESSO'') \<and>
     getattr dados ''inadimplencia_total'' = Inr (PFloat (py_max a b)) \<and>
     getattr dados ''carteira_bruta'' = Inr (PFloat c) \<and>
     getattr dados ''indice_npl_percentual'' =
       Inr (PFloat (if py_gt c (Finite 0) \<and> py_gt (py_max a b) (Finite 0)
                    then py_mul (ieee_div (py_max a b) c) (Finite 100) else Finite 0)) \<and>
     getattr dados ''indice_npl_decimal'' =
       Inr (PFloat (if py_gt c (Finite 0) \<and> py_gt (py_max a b) (Finite 0)
                    then py_min (ieee_div (py_mul (ieee_div (py_max a b) c) (Finite 100)) (Finite 100))
                           (Finite 1)
                    else Finite 0))"
proof -
  obtain a b c t l where
    a: "buscar_valor_xml float r ''CRED_EXISTE/VL_CRED_EXISTE_INAD'' = PFloat a" and
    b: "buscar_valor_xml float r ''DICRED/VL_DICRED_EXISTE_INAD'' = PFloat b" and
    c: "buscar_valor_xml float r ''CRED_EXISTE/VL_SOM_DICRED_AQUIS'' = PFloat c" and
    m: "(\<forall>m. getattr dados m =
        (if m = ''status'' then Inr (PStr ''SUCESSO'')
         else if m = ''concentracao_credito_decimal''
           then Inr (PFloat (if py_gt t (Finite 0)
                             then ieee_div (py_mul (ieee_div c t) (Finite 100)) (Finite 100) else Finite 0))
         else if m = ''concentracao_credito_percentual''
           then Inr (PFloat (if py_gt t (Finite 0) then py_mul (ieee_div c t) (Finite 100) else Finite 0))
         else if m = ''taxa_liquidez_decimal''
           then Inr (PFloat (if py_gt t (Finite 0)
                             then ieee_div (py_mul (ieee_div l t) (Finite 100)) (Finite 100) else Finite 0))
         else if m = ''taxa_liquidez_percentual''
           then Inr (PFloat (if py_gt t (Finite 0) then py_mul (ieee_div l t) (Finite 100) else Finite 0))
         else if m = ''indice_npl_percentual''
           then Inr (PFloat (if py_gt c (Finite 0) \<and> py_gt (py_max a b) (Finite 0)
                             then py_mul (ieee_div (py_max a b) c) (Finite 100) else Finite 0))
         else if m = ''indice_npl_decimal''
           then Inr (PFloat (if py_gt c (Finite 0) \<and> py_gt (py_max a b) (Finite 0)
                             then py_min (ieee_div (py_mul (ieee_div (py_max a b) c) (Finite 100)) (Finite 100))
                                    (Finite 1)
                             else Finite 0))
         else if m = ''carteira_bruta'' then Inr (PFloat c)
         else if m = ''inadimplencia_total'' then Inr (PFloat (py_max a b))
         else getattr (set_numeric_fields float r (set_identification float repr r fb FIDCData)) m))"
    using parse_attrs [of fromstring x r float repr fb dados] assms by blast
  have "getattr dados ''status'' = Inr (PStr ''SUCESSO'')"
    using m [rule_format, of "''status''"] by simp
  moreover have "getattr dados ''inadimplencia_total'' = Inr (PFloat (py_max a b))"
    using m [rule_format, of "''inadimplencia_total''"] by simp
  moreover have "getattr dados ''carteira_bruta'' = Inr (PFloat c)"
    using m [rule_format, of "''carteira_bruta''"] by simp
  moreover have "getattr dados ''indice_npl_percentual'' =
       Inr (PFloat (if py_gt c (Finite 0) \<and> py_gt (py_max a b) (Finite 0)
                    then py_mul (ieee_div (py_max a b) c) (Finite 100) else Finite 0))"
    using m [rule_format, of "''indice_npl_percentual''"] by simp
  moreover have "getattr dados ''indice_npl_decimal'' =
       Inr (PFloat (if py_gt c (Finite 0) \<and> py_gt (py_max a b) (Finite 0)
                    then py_min (ieee_div (py_mul (ieee_div (py_max a b) c) (Finite 100)) (Finite 100))
                           (Finite 1)
                    else Finite 0))"
    using m [rule_format, of "''indice_npl_decimal''"] by simp
  ultimately show ?thesis
    using a b c by blast
qed

subsection \<open>Strings\<close>

lemma replace1_delete: "replace1 c [] s = filter (\<lambda>x. x \<noteq> c) s"
  by (induction s) (simp_all add: replace1_def)

lemma replace1_char: "replace1 c [d] s = map (\<lambda>x. if x = c then d else x) s"
  by (induction s) (simp_all add: replace1_def)

lemma strip_Nil_iff: "strip s = [] \<longleftrightarrow> (\<forall>c\<in>set s. isspace c)"
proof
  assume "strip s = []"
  then have "dropWhile isspace s = []"
    by (metis dropWhile_eq_Nil_conv hd_dropWhile hd_in_set rev_is_Nil_conv set_rev strip_def)
  then show "\<forall>c\<in>set s. isspace c"
    by (simp add: dropWhile_eq_Nil_conv)
next
  assume "\<forall>c\<in>set s. isspace c"
  then have "dropWhile isspace s = []"
    by (simp add: dropWhile_eq_Nil_conv)
  then show "strip s = []"
    by (simp only: strip_def rev.simps dropWhile.simps)
qed

lemma isdigit_plain: "isdigit c \<Longrightarrow> c \<noteq> CHR ''.'' \<and> c \<noteq> CHR '','' \<and> \<not> isspace c"
  by (auto simp: isdigit_def isspace_def)

lemma filter_digits: "list_all isdigit ds \<Longrightarrow> filter (\<lambda>x. x \<noteq> CHR ''.'') ds = ds"
  by (induction ds) (auto dest: isdigit_plain)

lemma map_digits:
  "list_all isdigit ds \<Longrightarrow> map (\<lambda>x. if x = CHR '','' then CHR ''.'' else x) ds = ds"
  by (induction ds) (auto dest: isdigit_plain)

lemma filter_groups:
  "list_all (\<lambda>x. length x = 3 \<and> list_all isdigit x) gs \<Longrightarrow>
   filter (\<lambda>x. x \<noteq> CHR ''.'') (concat (map (\<lambda>x. CHR ''.'' # x) gs)) = concat gs"
  by (induction gs) (simp_all add: filter_digits)

lemma digits_concat:
  "list_all (\<lambda>x. length x = 3 \<and> list_all isdigit x) gs \<Longrightarrow> list_all isdigit (concat gs)"
  by (induction gs) simp_all

lemma br_text_cleaned:
  assumes "br_format g gs d1 d2"
  shows "replace1 CHR '','' ''.'' (replace1 CHR ''.'' [] (br_text g gs d1 d2)) =
         (g @ concat gs) @ CHR ''.'' # [d1, d2]"
proof -
  have d: "list_all isdigit g" "list_all isdigit (concat gs)" "isdigit d1" "isdigit d2"
    using assms by (simp_all add: br_format_def digits_concat)
  have "replace1 CHR ''.'' [] (br_text g gs d1 d2) = g @ concat gs @ [CHR '','', d1, d2]"
    using assms d isdigit_plain [of d1] isdigit_plain [of d2]
    by (simp add: replace1_delete br_text_def br_format_def filter_digits filter_groups)
  then show ?thesis
    using d isdigit_plain [of d1] isdigit_plain [of d2]
    by (simp add: replace1_char map_digits)
qed

lemma br_text_not_blank:
  assumes "br_format g gs d1 d2"
  shows "br_text g gs d1 d2 \<noteq> [] \<and> strip (br_text g gs d1 d2) \<noteq> []"
proof -
  have "d2 \<in> set (br_text g gs d1 d2)" "\<not> isspace d2"
    using assms isdigit_plain [of d2] by (simp_all add: br_text_def br_format_def)
  then show ?thesis
    using strip_Nil_iff by fastforce
qed

lemma digits_val_two: "digits_val [d1, d2] = 10 * digit_val d1 + digit_val d2"
  by (simp add: digits_val_def)

lemma reads_decimals_decimal_literal: "reads_decimals decimal_literal"
proof -
  have "decimal_literal (ip @ CHR ''.'' # fp) =
          Some (Finite (real (digits_val ip) + real (digits_val fp) / 10 ^ length fp))"
    if "ip \<noteq> []" "list_all isdigit ip" "fp \<noteq> []" "list_all isdigit fp" for ip fp
  proof -
    have n: "\<not> isdigit CHR ''.''"
      by (simp add: isdigit_def)
    have "takeWhile isdigit (ip @ CHR ''.'' # fp) = ip"
      using that(2) n by (simp add: list_all_iff)
    moreover have "dropWhile isdigit (ip @ CHR ''.'' # fp) = CHR ''.'' # fp"
      using that(2) n by (simp add: list_all_iff)
    ultimately show ?thesis
      using that by (simp add: decimal_literal_def)
  qed
  then show ?thesis
    unfolding reads_decimals_def by blast
qed

subsection \<open>C1: the numeric conversion\<close>

text \<open>
  C1. \<open>converter_valor\<close> returns 0 for \<^verbatim>\<open>None\<close>, for the empty string and for every
  text whose cleaned form \<open>float\<close> rejects. On a text that is not blank it removes every
  point, turns every comma into a point and returns what \<open>float\<close> reads. On a text in
  the Brazilian format \<^verbatim>\<open>D{1,3}(.D{3})*,DD\<close> the cleaned form is the plain literal made
  of the digits before the comma, a point and the two decimals, so that the result is
  the number written, for example 1234567.89 for \<^verbatim>\<open>1.234.567,89\<close>. The function is
  total: it raises nothing.
\<close>

theorem converter_valor_brazilian:
  "converter_valor float None = Finite 0 \<and>
   converter_valor float (Some []) = Finite 0 \<and>
   (float (replace1 CHR '','' ''.'' (replace1 CHR ''.'' [] s)) = None \<longrightarrow>
      converter_valor float (Some s) = Finite 0) \<and>
   (strip s \<noteq> [] \<longrightarrow>
      converter_valor float (Some s) =
        (case float (map (\<lambda>c. if c = CHR '','' then CHR ''.'' else c)
                       (filter (\<lambda>c. c \<noteq> CHR ''.'') s)) of
           Some v \<Rightarrow> v
         | None \<Rightarrow> Finite 0)) \<and>
   (br_format g gs d1 d2 \<longrightarrow>
      converter_valor float (Some (br_text g gs d1 d2)) =
        (case float ((g @ concat gs) @ CHR ''.'' # [d1, d2]) of
           Some v \<Rightarrow> v
         | None \<Rightarrow> Finite 0)) \<and>
   (br_format g gs d1 d2 \<and> reads_decimals float \<longrightarrow>
      converter_valor float (Some (br_text g gs d1 d2)) =
        Finite (real (digits_val (g @ concat gs)) + real (digits_val [d1, d2]) / 100))"
proof -
  have blank: "converter_valor float (Some s) = Finite 0"
    if "float (replace1 CHR '','' ''.'' (replace1 CHR ''.'' [] s)) = None"
    using that by (simp add: converter_valor_def)
  have clean: "converter_valor float (Some s) =
        (case float (map (\<lambda>c. if c = CHR '','' then CHR ''.'' else c)
                       (filter (\<lambda>c. c \<noteq> CHR ''.'') s)) of
           Some v \<Rightarrow> v
         | None \<Rightarrow> Finite 0)" if "strip s \<noteq> []"
  proof -
    have "s \<noteq> []"
      using that by (auto simp: strip_def)
    then show ?thesis
      using that by (simp add: converter_valor_def replace1_delete replace1_char)
  qed
  have br: "converter_valor float (Some (br_text g gs d1 d2)) =
        (case float ((g @ concat gs) @ CHR ''.'' # [d1, d2]) of
           Some v \<Rightarrow> v
         | None \<Rightarrow> Finite 0)" if "br_format g gs d1 d2"
    using br_text_not_blank [OF that] br_text_cleaned [OF that]
    by (simp add: converter_valor_def)
  have num: "converter_valor float (Some (br_text g gs d1 d2)) =
        Finite (real (digits_val (g @ concat gs)) + real (digits_val [d1, d2]) / 100)"
    if f: "br_format g gs d1 d2" and r: "reads_decimals float"
  proof -
    have "g @ concat gs \<noteq> []" "list_all isdigit (g @ concat gs)" "list_all isdigit [d1, d2]"
      using f by (auto simp: br_format_def digits_concat)
    then have "float ((g @ concat gs) @ CHR ''.'' # [d1, d2]) =
        Some (Finite (real (digits_val (g @ concat gs)) + real (digits_val [d1, d2]) / 10 ^ length [d1, d2]))"
      using r unfolding reads_decimals_def by blast
    then show ?thesis
      using br [OF f] by simp
  qed
  show ?thesis
    using blank clean br num by (simp add: converter_valor_def)
qed

theorem converter_valor_brazilian_witness:
  "br_format ''1'' [''234'', ''567''] CHR ''8'' CHR ''9'' \<and>
   reads_decimals decimal_literal \<and>
   br_text ''1'' [''234'', ''567''] CHR ''8'' CHR ''9'' = ''1.234.567,89'' \<and>
   converter_valor decimal_literal (Some ''1.234.567,89'') = Finite 1234567.89 \<and>
   decimal_literal (replace1 CHR '','' ''.'' (replace1 CHR ''.'' [] ''12,3,4'')) = None \<and>
   converter_valor decimal_literal (Some ''12,3,4'') = Finite 0"
proof -
  have f: "br_format ''1'' [''234'', ''567''] CHR ''8'' CHR ''9''"
    by (simp add: br_format_def isdigit_def)
  have t: "br_text ''1'' [''234'', ''567''] CHR ''8'' CHR ''9'' = ''1.234.567,89''"
    by (simp add: br_text_def)
  have n: "decimal_literal (replace1 CHR '','' ''.'' (replace1 CHR ''.'' [] ''12,3,4'')) = None"
    by (simp add: decimal_literal_def replace1_def isdigit_def)
  have v: "real (digits_val (''1'' @ concat [''234'', ''567''])) + real (digits_val [CHR ''8'', CHR ''9'']) / 100
             = 1234567.89"
    by (simp add: digits_val_def digit_val_def)
  note c = converter_valor_brazilian
      [of decimal_literal "''12,3,4''" "''1''" "[''234'', ''567'']" "CHR ''8''" "CHR ''9''"]
  have "converter_valor decimal_literal (Some (br_text ''1'' [''234'', ''567''] CHR ''8'' CHR ''9'')) =
      Finite (real (digits_val (''1'' @ concat [''234'', ''567''])) + real (digits_val [CHR ''8'', CHR ''9'']) / 100)"
    using c f reads_decimals_decimal_literal by blast
  then have a: "converter_valor decimal_literal (Some ''1.234.567,89'') = Finite 1234567.89"
    by (simp only: t v)
  have b: "converter_valor decimal_literal (Some ''12,3,4'') = Finite 0"
    using c n by blast
  show ?thesis
    using f reads_decimals_decimal_literal t a n b by blast
qed

subsection \<open>The parser\<close>

lemma buscar_text_path:
  "is_text_path p \<Longrightarrow>
   buscar_valor_xml float r p =
     PStr (case find_xml r p of
             None \<Rightarrow> []
           | Some el \<Rightarrow> (case elem_text el of None \<Rightarrow> [] | Some t \<Rightarrow> strip t))"
  by (auto simp: buscar_valor_xml_def Let_def strip_def split: option.splits)

lemma getattr_set_identification_cnpj:
  "getattr (set_identification float repr r fb d) ''cnpj_fundo'' =
     Inr (PStr (if py_str repr (buscar_valor_xml float r ''NR_CNPJ_FUNDO'') \<noteq> []
                then py_str repr (buscar_valor_xml float r ''NR_CNPJ_FUNDO'') else fb))"
  by (simp add: set_identification_def Let_def getattr_setattr)

lemma parse_Inr_root:
  "parse float repr fromstring x fb = Inr dados \<Longrightarrow> \<exists>r. fromstring x = Inr r"
  by (cases "fromstring x") (simp_all add: parse_def)

lemma parse_succeeds:
  "fromstring x = Inr r \<Longrightarrow> \<exists>dados. parse float repr fromstring x fb = Inr dados"
  using parse_Inr [of fromstring x r float repr fb] by blast

lemma parse_cnpj_fundo:
  assumes "fromstring x = Inr r" and "parse float repr fromstring x fb = Inr dados"
  shows "getattr dados ''cnpj_fundo'' =
     Inr (PStr (case find_xml r ''NR_CNPJ_FUNDO'' of
                  None \<Rightarrow> fb
                | Some el \<Rightarrow>
                    (case elem_text el of
                       None \<Rightarrow> fb
                     | Some t \<Rightarrow> if strip t = [] then fb else strip t)))"
proof -
  have t: "is_text_path ''NR_CNPJ_FUNDO''"
    by (simp add: is_text_path_def text_markers_def)
  have "getattr dados ''cnpj_fundo'' =
      getattr (set_numeric_fields float r (set_identification float repr r fb FIDCData)) ''cnpj_fundo''"
    using parse_attr_other [of fromstring x r float repr fb dados "''cnpj_fundo''"] assms by simp
  then have "getattr dados ''cnpj_fundo'' =
      getattr (set_identification float repr r fb FIDCData) ''cnpj_fundo''"
    by (simp add: getattr_set_numeric_fields rev_numeric_lookups)
  then show ?thesis
    by (simp add: getattr_set_identification_cnpj buscar_text_path [OF t] py_str_def
        split: option.splits)
qed

subsection \<open>C10: the fallback identifier\<close>

text \<open>
  C10. For a filing that \<open>parse\<close> accepts: when the filing has no \<^verbatim>\<open>NR_CNPJ_FUNDO\<close>
  element, or the element has no text, or its trimmed text is empty, the snapshot's
  \<open>cnpj_fundo\<close> is the caller's fallback identifier, unchanged; otherwise it is the
  trimmed text of the element and the fallback is not used.
\<close>

theorem parse_cnpj_fallback:
  assumes "parse float repr fromstring xml_content cnpj_fallback = Inr dados"
  shows "\<exists>xroot. fromstring xml_content = Inr xroot \<and>
     getattr dados ''cnpj_fundo'' =
       Inr (PStr (case find_xml xroot ''NR_CNPJ_FUNDO'' of
                    None \<Rightarrow> cnpj_fallback
                  | Some el \<Rightarrow>
                      (case elem_text el of
                         None \<Rightarrow> cnpj_fallback
                       | Some t \<Rightarrow> if strip t = [] then cnpj_fallback else strip t)))"
proof -
  obtain xroot where r: "fromstring xml_content = Inr xroot"
    using parse_Inr_root [OF assms] by blast
  show ?thesis
    using parse_cnpj_fundo [of fromstring xml_content xroot float repr cnpj_fallback dados] r assms
    by simp
qed

theorem parse_cnpj_fallback_witness:
  "(\<exists>dados. parse decimal_literal repr0 Inr filing_empty ''00000000123456'' = Inr dados \<and>
      getattr dados ''cnpj_fundo'' = Inr (PStr ''00000000123456'')) \<and>
   (\<exists>dados. parse decimal_literal repr0 Inr filing_cnpj ''00000000123456'' = Inr dados \<and>
      getattr dados ''cnpj_fundo'' = Inr (PStr ''12345678000190''))"
proof -
  have e: "find_xml filing_empty ''NR_CNPJ_FUNDO'' = None"
    by (simp add: find_xml_def filing_empty_def)
  have c: "find_xml filing_cnpj ''NR_CNPJ_FUNDO'' =
             Some (Element ''NR_CNPJ_FUNDO'' (Some '' 12345678000190 '') [])"
    by (simp add: find_xml_def filing_cnpj_def)
  have s: "strip '' 12345678000190 '' = ''12345678000190''"
    by (simp add: strip_def isspace_def)
  obtain d1 where d1: "parse decimal_literal repr0 Inr filing_empty ''00000000123456'' = Inr d1"
    using parse_succeeds [of Inr filing_empty filing_empty] by blast
  obtain d2 where d2: "parse decimal_literal repr0 Inr filing_cnpj ''00000000123456'' = Inr d2"
    using parse_succeeds [of Inr filing_cnpj filing_cnpj] by blast
  show ?thesis
    using parse_cnpj_fallback [OF d1] parse_cnpj_fallback [OF d2] d1 d2 e c s by simp
qed

lemma parse_numeric_attr:
  assumes "fromstring x = Inr r" and "parse float repr fromstring x fb = Inr dados"
    and "map_of (rev numeric_fields) name = Some p"
  shows "getattr dados name = Inr (buscar_valor_xml float r p)"
proof -
  have n: "map_of (rev numeric_fields) ''status'' = None"
    "map_of (rev numeric_fields) ''concentracao_credito_decimal'' = None"
    "map_of (rev numeric_fields) ''concentracao_credito_percentual'' = None"
    "map_of (rev numeric_fields) ''taxa_liquidez_decimal'' = None"
    "map_of (rev numeric_fields) ''taxa_liquidez_percentual'' = None"
    "map_of (rev numeric_fields) ''indice_npl_percentual'' = None"
    "map_of (rev numeric_fields) ''indice_npl_decimal'' = None"
    "map_of (rev numeric_fields) ''carteira_bruta'' = None"
    "map_of (rev numeric_fields) ''inadimplencia_total'' = None"
    by (simp_all add: numeric_fields_def)
  have "name \<noteq> ''status''" "name \<noteq> ''concentracao_credito_decimal''"
    "name \<noteq> ''concentracao_credito_percentual''" "name \<noteq> ''taxa_liquidez_decimal''"
    "name \<noteq> ''taxa_liquidez_percentual''" "name \<noteq> ''indice_npl_percentual''"
    "name \<noteq> ''indice_npl_decimal''" "name \<noteq> ''carteira_bruta''"
    "name \<noteq> ''inadimplencia_total''"
    using assms(3) n by auto
  then have "getattr dados name =
      getattr (set_numeric_fields float r (set_identification float repr r fb FIDCData)) name"
    using parse_attr_other [of fromstring x r float repr fb dados name] assms(1,2) by simp
  then show ?thesis
    using assms(3) by (simp add: getattr_set_numeric_fields)
qed

subsection \<open>C3: consolidated delinquency\<close>

text \<open>
  What \<^verbatim>\<open>max\<close> returns: on two numbers the larger one, on a first argument that is
  NaN that NaN, and on a second argument that is NaN the first argument.
\<close>

lemma py_max_Finite: "py_max (Finite a) (Finite b) = Finite (max a b)"
  by (simp add: py_max_def py_gt_def max_def)

lemma py_max_larger:
  assumes "a \<noteq> NaN" and "b \<noteq> NaN"
  shows "(py_max a b = a \<or> py_max a b = b) \<and> \<not> py_lt (py_max a b) a \<and> \<not> py_lt (py_max a b) b"
  using assms by (cases a; cases b) (simp_all add: py_max_def py_gt_def)

lemma py_max_NaN: "py_max NaN b = NaN" "py_max a NaN = a"
  by (cases b; simp add: py_max_def py_gt_def) (cases a; simp add: py_max_def py_gt_def)

text \<open>
  For a filing that \<open>parse\<close> accepts, the two delinquency measurements of the filing
  (\<^verbatim>\<open>CRED_EXISTE/VL_CRED_EXISTE_INAD\<close> and \<^verbatim>\<open>DICRED/VL_DICRED_EXISTE_INAD\<close>) are floats,
  they are the snapshot's \<open>cred_inadimplencia\<close> and \<open>dicred_inadimplencia\<close>, and
  \<open>inadimplencia_total\<close> is \<^verbatim>\<open>max\<close> of the two, in this order.
\<close>

lemma inadimplencia_total_py_max:
  assumes "parse float repr fromstring xml_content cnpj_fallback = Inr dados"
  shows "\<exists>xroot cred dicred.
     fromstring xml_content = Inr xroot \<and>
     buscar_valor_xml float xroot ''CRED_EXISTE/VL_CRED_EXISTE_INAD'' = PFloat cred \<and>
     buscar_valor_xml float xroot ''DICRED/VL_DICRED_EXISTE_INAD'' = PFloat dicred \<and>
     getattr dados ''cred_inadimplencia'' = Inr (PFloat cred) \<and>
     getattr dados ''dicred_inadimplencia'' = Inr (PFloat dicred) \<and>
     getattr dados ''inadimplencia_total'' = Inr (PFloat (py_max cred dicred))"
proof -
  obtain xroot where r: "fromstring xml_content = Inr xroot"
    using parse_Inr_root [OF assms] by blast
  obtain a b where
    a: "buscar_valor_xml float xroot ''CRED_EXISTE/VL_CRED_EXISTE_INAD'' = PFloat a" and
    b: "buscar_valor_xml float xroot ''DICRED/VL_DICRED_EXISTE_INAD'' = PFloat b" and
    i: "getattr dados ''inadimplencia_total'' = Inr (PFloat (py_max a b))"
    using parse_indicator_attrs [of fromstring xml_content xroot float repr cnpj_fallback dados]
      r assms
    by blast
  have "getattr dados ''cred_inadimplencia'' = Inr (PFloat a)"
    using parse_numeric_attr
      [of fromstring xml_content xroot float repr cnpj_fallback dados, OF r assms
        rev_numeric_lookups(1)] a
    by simp
  moreover have "getattr dados ''dicred_inadimplencia'' = Inr (PFloat b)"
    using parse_numeric_attr
      [of fromstring xml_content xroot float repr cnpj_fallback dados, OF r assms
        rev_numeric_lookups(2)] b
    by simp
  ultimately show ?thesis
    using r a b i by blast
qed

lemma buscar_filing_50_30:
  "buscar_valor_xml decimal_literal filing_50_30 ''CRED_EXISTE/VL_CRED_EXISTE_INAD'' = PFloat (Finite 50)"
  "buscar_valor_xml decimal_literal filing_50_30 ''DICRED/VL_DICRED_EXISTE_INAD'' = PFloat (Finite 30)"
  by (simp_all add: buscar_valor_xml_def find_xml_def filing_50_30_def is_text_path_def
      text_markers_def converter_valor_def strip_def isspace_def replace1_def
      decimal_literal_def isdigit_def digits_val_def digit_val_def Let_def)

lemma buscar_filing_empty:
  "buscar_valor_xml decimal_literal filing_empty ''CRED_EXISTE/VL_CRED_EXISTE_INAD'' = PFloat (Finite 0)"
  "buscar_valor_xml decimal_literal filing_empty ''DICRED/VL_DICRED_EXISTE_INAD'' = PFloat (Finite 0)"
  by (simp_all add: buscar_valor_xml_def find_xml_def filing_empty_def is_text_path_def
      is_numeric_path_def text_markers_def Let_def)

text \<open>The examples of the specification: 50 for 50 and 30, 0 for 0 and 0.\<close>

lemma inadimplencia_total_examples:
  "(\<exists>dados. parse decimal_literal repr0 Inr filing_50_30 [] = Inr dados \<and>
      getattr dados ''cred_inadimplencia'' = Inr (PFloat (Finite 50)) \<and>
      getattr dados ''dicred_inadimplencia'' = Inr (PFloat (Finite 30)) \<and>
      getattr dados ''inadimplencia_total'' = Inr (PFloat (Finite 50))) \<and>
   (\<exists>dados. parse decimal_literal repr0 Inr filing_empty [] = Inr dados \<and>
      getattr dados ''inadimplencia_total'' = Inr (PFloat (Finite 0)))"
proof -
  obtain d1 where d1: "parse decimal_literal repr0 Inr filing_50_30 [] = Inr d1"
    using parse_succeeds [of Inr filing_50_30 filing_50_30] by blast
  obtain d2 where d2: "parse decimal_literal repr0 Inr filing_empty [] = Inr d2"
    using parse_succeeds [of Inr filing_empty filing_empty] by blast
  have "getattr d1 ''cred_inadimplencia'' = Inr (PFloat (Finite 50)) \<and>
      getattr d1 ''dicred_inadimplencia'' = Inr (PFloat (Finite 30)) \<and>
      getattr d1 ''inadimplencia_total'' = Inr (PFloat (Finite 50))"
    using inadimplencia_total_py_max [OF d1] buscar_filing_50_30 by (auto simp: py_max_Finite)
  moreover have "getattr d2 ''inadimplencia_total'' = Inr (PFloat (Finite 0))"
    using inadimplencia_total_py_max [OF d2] buscar_filing_empty by (auto simp: py_max_Finite)
  ultimately show ?thesis
    using d1 d2 by blast
qed

lemma buscar_filing_nan:
  "buscar_valor_xml float_literal filing_nan_30 ''CRED_EXISTE/VL_CRED_EXISTE_INAD'' = PFloat NaN"
  "buscar_valor_xml float_literal filing_nan_30 ''DICRED/VL_DICRED_EXISTE_INAD'' = PFloat (Finite 30)"
  "buscar_valor_xml float_literal filing_30_nan ''CRED_EXISTE/VL_CRED_EXISTE_INAD'' = PFloat (Finite 30)"
  "buscar_valor_xml float_literal filing_30_nan ''DICRED/VL_DICRED_EXISTE_INAD'' = PFloat NaN"
  by (simp_all add: buscar_valor_xml_def find_xml_def filing_nan_30_def filing_30_nan_def
      is_text_path_def text_markers_def converter_valor_def strip_def isspace_def replace1_def
      float_literal_def decimal_literal_def isdigit_def digits_val_def digit_val_def Let_def)

text \<open>
  C3. The claim fails on a filing whose \<^verbatim>\<open>VL_CRED_EXISTE_INAD\<close> is the text \<^verbatim>\<open>nan\<close> and
  whose \<^verbatim>\<open>VL_DICRED_EXISTE_INAD\<close> is \<^verbatim>\<open>30,00\<close>: \<open>converter_valor\<close> hands \<^verbatim>\<open>nan\<close> to
  \<^verbatim>\<open>float\<close>, which reads it as NaN, the filing is parsed with status \<^verbatim>\<open>SUCESSO\<close>, and
  its consolidated delinquency is NaN, not the larger measurement 30. With the two
  texts exchanged the consolidated delinquency is 30: the result depends on the order
  of the two measurements.
\<close>

theorem parse_inadimplencia_nan:
  "\<not> isl (parse float_literal repr0 Inr filing_nan_30 []) \<and>
   getattr (projr (parse float_literal repr0 Inr filing_nan_30 [])) ''status''
     = Inr (PStr ''SUCESSO'') \<and>
   getattr (projr (parse float_literal repr0 Inr filing_nan_30 [])) ''cred_inadimplencia''
     = Inr (PFloat NaN) \<and>
   getattr (projr (parse float_literal repr0 Inr filing_nan_30 [])) ''dicred_inadimplencia''
     = Inr (PFloat (Finite 30)) \<and>
   getattr (projr (parse float_literal repr0 Inr filing_nan_30 [])) ''inadimplencia_total''
     = Inr (PFloat NaN) \<and>
   \<not> isl (parse float_literal repr0 Inr filing_30_nan []) \<and>
   getattr (projr (parse float_literal repr0 Inr filing_30_nan [])) ''inadimplencia_total''
     = Inr (PFloat (Finite 30))"
proof -
  obtain d1 where d1: "parse float_literal repr0 Inr filing_nan_30 [] = Inr d1"
    using parse_succeeds [of Inr filing_nan_30 filing_nan_30] by blast
  obtain d2 where d2: "parse float_literal repr0 Inr filing_30_nan [] = Inr d2"
    using parse_succeeds [of Inr filing_30_nan filing_30_nan] by blast
  have s: "getattr d1 ''status'' = Inr (PStr ''SUCESSO'')"
    using parse_indicator_attrs [of Inr filing_nan_30 filing_nan_30 float_literal repr0 "[]" d1] d1
    by blast
  have "getattr d1 ''cred_inadimplencia'' = Inr (PFloat NaN) \<and>
      getattr d1 ''dicred_inadimplencia'' = Inr (PFloat (Finite 30)) \<and>
      getattr d1 ''inadimplencia_total'' = Inr (PFloat NaN)"
    using inadimplencia_total_py_max [OF d1] buscar_filing_nan(1,2) by (auto simp: py_max_NaN)
  moreover have "getattr d2 ''inadimplencia_total'' = Inr (PFloat (Finite 30))"
    using inadimplencia_total_py_max [OF d2] buscar_filing_nan(3,4) by (auto simp: py_max_NaN)
  ultimately show ?thesis
    using d1 d2 s by simp
qed

subsection \<open>C4: the NPL ratio\<close>

text \<open>
  The cap of the NPL decimal: under the two positivity tests the decimal is a number
  between 0 and 1, unless the acquired receivables and the consolidated delinquency
  are both infinite; then the quotient, the percentage and the decimal are NaN.
\<close>

lemma npl_decimal_cap:
  assumes "py_gt c (Finite 0)" and "py_gt i (Finite 0)"
  shows "(c = PosInf \<and> i = PosInf \<longrightarrow>
            py_min (ieee_div (py_mul (ieee_div i c) (Finite 100)) (Finite 100)) (Finite 1) = NaN) \<and>
         (\<not> (c = PosInf \<and> i = PosInf) \<longrightarrow>
            (\<exists>v. py_min (ieee_div (py_mul (ieee_div i c) (Finite 100)) (Finite 100)) (Finite 1)
                   = Finite v \<and> 0 \<le> v \<and> v \<le> 1))"
  using assms
  by (cases c; cases i) (auto simp: py_gt_def py_min_def signed_inf_def)

text \<open>
  For a filing that \<open>parse\<close> accepts, with \<open>carteira\<close> the acquired receivables
  (\<^verbatim>\<open>CRED_EXISTE/VL_SOM_DICRED_AQUIS\<close>) and \<open>inad\<close> the consolidated delinquency: when
  both compare greater than zero, the NPL percentage is \<open>inad / carteira * 100\<close> and the
  NPL decimal is \<^verbatim>\<open>min\<close> of that percentage over 100 and 1; otherwise both are 0. The
  decimal is a number between 0 and 1 unless \<open>carteira\<close> and \<open>inad\<close> are both infinite,
  and then it is NaN.
\<close>

lemma indice_npl_formula:
  assumes "parse float repr fromstring xml_content cnpj_fallback = Inr dados"
  shows "\<exists>xroot carteira inad npl.
     fromstring xml_content = Inr xroot \<and>
     buscar_valor_xml float xroot ''CRED_EXISTE/VL_SOM_DICRED_AQUIS'' = PFloat carteira \<and>
     getattr dados ''creditos_adquiridos'' = Inr (PFloat carteira) \<and>
     getattr dados ''inadimplencia_total'' = Inr (PFloat inad) \<and>
     getattr dados ''indice_npl_percentual'' =
       Inr (PFloat (if py_gt carteira (Finite 0) \<and> py_gt inad (Finite 0)
                    then py_mul (ieee_div inad carteira) (Finite 100) else Finite 0)) \<and>
     getattr dados ''indice_npl_decimal'' =
       Inr (PFloat (if py_gt carteira (Finite 0) \<and> py_gt inad (Finite 0)
                    then py_min (ieee_div (py_mul (ieee_div inad carteira) (Finite 100)) (Finite 100))
                           (Finite 1)
                    else Finite 0)) \<and>
     getattr dados ''indice_npl_decimal'' = Inr (PFloat npl) \<and>
     (carteira = PosInf \<and> inad = PosInf \<longrightarrow> npl = NaN) \<and>
     (\<not> (carteira = PosInf \<and> inad = PosInf) \<longrightarrow> (\<exists>v. npl = Finite v \<and> 0 \<le> v \<and> v \<le> 1))"
proof -
  obtain xroot where r: "fromstring xml_content = Inr xroot"
    using parse_Inr_root [OF assms] by blast
  obtain a b c where
    c: "buscar_valor_xml float xroot ''CRED_EXISTE/VL_SOM_DICRED_AQUIS'' = PFloat c" and
    i: "getattr dados ''inadimplencia_total'' = Inr (PFloat (py_max a b))" and
    p: "getattr dados ''indice_npl_percentual'' =
       Inr (PFloat (if py_gt c (Finite 0) \<and> py_gt (py_max a b) (Finite 0)
                    then py_mul (ieee_div (py_max a b) c) (Finite 100) else Finite 0))" and
    d: "getattr dados ''indice_npl_decimal'' =
       Inr (PFloat (if py_gt c (Finite 0) \<and> py_gt (py_max a b) (Finite 0)
                    then py_min (ieee_div (py_mul (ieee_div (py_max a b) c) (Finite 100)) (Finite 100))
                           (Finite 1)
                    else Finite 0))"
    using parse_indicator_attrs [of fromstring xml_content xroot float repr cnpj_fallback dados]
      r assms
    by blast
  let ?i = "py_max a b"
  let ?npl = "if py_gt c (Finite 0) \<and> py_gt ?i (Finite 0)
              then py_min (ieee_div (py_mul (ieee_div ?i c) (Finite 100)) (Finite 100)) (Finite 1)
              else Finite 0"
  have g: "getattr dados ''creditos_adquiridos'' = Inr (PFloat c)"
    using parse_numeric_attr
      [of fromstring xml_content xroot float repr cnpj_fallback dados, OF r assms
        rev_numeric_lookups(3)] c
    by simp
  have n1: "c = PosInf \<and> ?i = PosInf \<longrightarrow> ?npl = NaN"
    using npl_decimal_cap [of c ?i] by (auto simp: py_gt_def)
  have n2: "\<not> (c = PosInf \<and> ?i = PosInf) \<longrightarrow> (\<exists>v. ?npl = Finite v \<and> 0 \<le> v \<and> v \<le> 1)"
    using npl_decimal_cap [of c ?i] by auto
  from r c g i p d n1 n2 show ?thesis
    by blast
qed

lemma buscar_filing_malformed:
  "buscar_valor_xml decimal_literal filing_malformed ''CRED_EXISTE/VL_SOM_DICRED_AQUIS'' = PFloat (Finite (1 / 100))"
  "buscar_valor_xml decimal_literal filing_malformed ''CRED_EXISTE/VL_CRED_EXISTE_INAD'' = PFloat (Finite 3100000)"
  "buscar_valor_xml decimal_literal filing_malformed ''DICRED/VL_DICRED_EXISTE_INAD'' = PFloat (Finite 0)"
  by (simp_all add: buscar_valor_xml_def find_xml_def filing_malformed_def is_text_path_def
      is_numeric_path_def text_markers_def converter_valor_def strip_def isspace_def replace1_def
      decimal_literal_def isdigit_def digits_val_def digit_val_def Let_def)

text \<open>
  The example of the specification: a percentage of 31,000,000,000 from malformed
  inputs gives the decimal 1.
\<close>

lemma indice_npl_example:
  "\<exists>dados. parse decimal_literal repr0 Inr filing_malformed [] = Inr dados \<and>
      getattr dados ''indice_npl_percentual'' = Inr (PFloat (Finite 31000000000)) \<and>
      getattr dados ''indice_npl_decimal'' = Inr (PFloat (Finite 1))"
proof -
  obtain d where d: "parse decimal_literal repr0 Inr filing_malformed [] = Inr d"
    using parse_succeeds [of Inr filing_malformed filing_malformed] by blast
  obtain a b c where
    a: "buscar_valor_xml decimal_literal filing_malformed ''CRED_EXISTE/VL_CRED_EXISTE_INAD'' = PFloat a" and
    b: "buscar_valor_xml decimal_literal filing_malformed ''DICRED/VL_DICRED_EXISTE_INAD'' = PFloat b" and
    c: "buscar_valor_xml decimal_literal filing_malformed ''CRED_EXISTE/VL_SOM_DICRED_AQUIS'' = PFloat c" and
    p: "getattr d ''indice_npl_percentual'' =
       Inr (PFloat (if py_gt c (Finite 0) \<and> py_gt (py_max a b) (Finite 0)
                    then py_mul (ieee_div (py_max a b) c) (Finite 100) else Finite 0))" and
    q: "getattr d ''indice_npl_decimal'' =
       Inr (PFloat (if py_gt c (Finite 0) \<and> py_gt (py_max a b) (Finite 0)
                    then py_min (ieee_div (py_mul (ieee_div (py_max a b) c) (Finite 100)) (Finite 100))
                           (Finite 1)
                    else Finite 0))"
    using parse_indicator_attrs [of Inr filing_malformed filing_malformed decimal_literal repr0 "[]" d] d
    by blast
  have av: "a = Finite 3100000" and bv: "b = Finite 0" and cv: "c = Finite (1 / 100)"
    using a b c buscar_filing_malformed by simp_all
  have "getattr d ''indice_npl_percentual'' = Inr (PFloat (Finite 31000000000)) \<and>
      getattr d ''indice_npl_decimal'' = Inr (PFloat (Finite 1))"
    unfolding p q av bv cv by (simp add: py_max_def py_gt_def py_min_def)
  with d show ?thesis
    by blast
qed

lemma buscar_filing_inf:
  "buscar_valor_xml float_literal filing_inf ''CRED_EXISTE/VL_SOM_DICRED_AQUIS'' = PFloat PosInf"
  "buscar_valor_xml float_literal filing_inf ''CRED_EXISTE/VL_CRED_EXISTE_INAD'' = PFloat PosInf"
  "buscar_valor_xml float_literal filing_inf ''DICRED/VL_DICRED_EXISTE_INAD'' = PFloat (Finite 0)"
  by (simp_all add: buscar_valor_xml_def find_xml_def filing_inf_def is_text_path_def
      is_numeric_path_def text_markers_def converter_valor_def strip_def isspace_def replace1_def
      float_literal_def decimal_literal_def isdigit_def digits_val_def digit_val_def Let_def)

text \<open>
  C4. The claim fails on a filing whose \<^verbatim>\<open>VL_SOM_DICRED_AQUIS\<close> and
  \<^verbatim>\<open>VL_CRED_EXISTE_INAD\<close> are both the text \<^verbatim>\<open>inf\<close>: \<^verbatim>\<open>float\<close> reads them as infinity,
  both positivity tests hold, the quotient of the two infinities is NaN, and
  \<^verbatim>\<open>min(nan, 1.0)\<close> is NaN. The filing is parsed with status \<^verbatim>\<open>SUCESSO\<close> and its NPL
  decimal is NaN, which is not at most 1: neither \<^verbatim>\<open>nan < 1.0\<close> nor \<^verbatim>\<open>nan == 1.0\<close> holds.
\<close>

theorem parse_indice_npl_nan:
  "\<not> isl (parse float_literal repr0 Inr filing_inf []) \<and>
   getattr (projr (parse float_literal repr0 Inr filing_inf [])) ''status''
     = Inr (PStr ''SUCESSO'') \<and>
   getattr (projr (parse float_literal repr0 Inr filing_inf [])) ''creditos_adquiridos''
     = Inr (PFloat PosInf) \<and>
   getattr (projr (parse float_literal repr0 Inr filing_inf [])) ''inadimplencia_total''
     = Inr (PFloat PosInf) \<and>
   py_gt PosInf (Finite 0) \<and>
   getattr (projr (parse float_literal repr0 Inr filing_inf [])) ''indice_npl_percentual''
     = Inr (PFloat NaN) \<and>
   getattr (projr (parse float_literal repr0 Inr filing_inf [])) ''indice_npl_decimal''
     = Inr (PFloat NaN) \<and>
   \<not> py_lt NaN (Finite 1) \<and> NaN \<noteq> Finite 1"
proof -
  obtain d where d: "parse float_literal repr0 Inr filing_inf [] = Inr d"
    using parse_succeeds [of Inr filing_inf filing_inf] by blast
  obtain a b c where
    a: "buscar_valor_xml float_literal filing_inf ''CRED_EXISTE/VL_CRED_EXISTE_INAD'' = PFloat a" and
    b: "buscar_valor_xml float_literal filing_inf ''DICRED/VL_DICRED_EXISTE_INAD'' = PFloat b" and
    c: "buscar_valor_xml float_literal filing_inf ''CRED_EXISTE/VL_SOM_DICRED_AQUIS'' = PFloat c" and
    s: "getattr d ''status'' = Inr (PStr ''SUCESSO'')" and
    i: "getattr d ''inadimplencia_total'' = Inr (PFloat (py_max a b))" and
    p: "getattr d ''indice_npl_percentual'' =
       Inr (PFloat (if py_gt c (Finite 0) \<and> py_gt (py_max a b) (Finite 0)
                    then py_mul (ieee_div (py_max a b) c) (Finite 100) else Finite 0))" and
    q: "getattr d ''indice_npl_decimal'' =
       Inr (PFloat (if py_gt c (Finite 0) \<and> py_gt (py_max a b) (Finite 0)
                    then py_min (ieee_div (py_mul (ieee_div (py_max a b) c) (Finite 100)) (Finite 100))
                           (Finite 1)
                    else Finite 0))"
    using parse_indicator_attrs [of Inr filing_inf filing_inf float_literal repr0 "[]" d] d
    by blast
  have av: "a = PosInf" and bv: "b = Finite 0" and cv: "c = PosInf"
    using a b c buscar_filing_inf by simp_all
  have g: "getattr d ''creditos_adquiridos'' = Inr (PFloat PosInf)"
    using parse_numeric_attr
      [of Inr filing_inf filing_inf float_literal repr0 "[]" d "''creditos_adquiridos''"
        "''CRED_EXISTE/VL_SOM_DICRED_AQUIS''"] d rev_numeric_lookups(3) buscar_filing_inf(1)
    by simp
  have "getattr d ''inadimplencia_total'' = Inr (PFloat PosInf) \<and>
      getattr d ''indice_npl_percentual'' = Inr (PFloat NaN) \<and>
      getattr d ''indice_npl_decimal'' = Inr (PFloat NaN)"
    unfolding i p q av bv cv by (simp add: py_max_def py_gt_def py_min_def)
  with d s g show ?thesis
    by (simp add: py_gt_def)
qed

subsection \<open>C9: the fund identifier\<close>









subsection \<open>C5: the typing policy of the field lookup\<close>

text \<open>
  C5, as amended. A path is textual when it contains one of the markers
  \<^verbatim>\<open>DT_ NR_ CD_ FDO_ CLASS_ COTST_ TP_\<close>. For a textual path the lookup returns the
  trimmed text of the element as a string, and the empty string when the element is
  absent or has no text. For any other path: when the element has a non-empty text,
  the lookup returns its Brazilian-locale conversion, 0 when the conversion fails; when
  the element is absent or has no text, it returns 0 if the path contains \<^verbatim>\<open>/\<close> or
  starts with \<^verbatim>\<open>VL_\<close>, \<^verbatim>\<open>QT_\<close>, \<^verbatim>\<open>PR_\<close> or \<^verbatim>\<open>TX_\<close>, and the empty string
  otherwise.
\<close>

theorem buscar_valor_xml_typing:
  "(is_text_path caminho \<longrightarrow>
      buscar_valor_xml float xroot caminho =
        PStr (case find_xml xroot caminho of
                None \<Rightarrow> []
              | Some el \<Rightarrow> (case elem_text el of None \<Rightarrow> [] | Some t \<Rightarrow> strip t))) \<and>
   (\<not> is_text_path caminho \<and> find_xml xroot caminho = Some el \<and> elem_text el = Some t \<and> t \<noteq> [] \<longrightarrow>
      buscar_valor_xml float xroot caminho = PFloat (converter_valor float (Some t)) \<and>
      (float (replace1 CHR '','' ''.'' (replace1 CHR ''.'' [] t)) = None \<longrightarrow>
         buscar_valor_xml float xroot caminho = PFloat (Finite 0))) \<and>
   (\<not> is_text_path caminho \<and>
    (find_xml xroot caminho = None \<or>
     (find_xml xroot caminho = Some el \<and> (elem_text el = None \<or> elem_text el = Some []))) \<longrightarrow>
      buscar_valor_xml float xroot caminho =
        (if CHR ''/'' \<in> set caminho \<or> startswith caminho ''VL_'' \<or> startswith caminho ''QT_'' \<or>
            startswith caminho ''PR_'' \<or> startswith caminho ''TX_''
         then PFloat (Finite 0) else PStr []))"
proof -
  have "converter_valor float (Some t) = Finite 0"
    if "float (replace1 CHR '','' ''.'' (replace1 CHR ''.'' [] t)) = None"
    using that by (simp add: converter_valor_def)
  then show ?thesis
    using buscar_text_path [of caminho float xroot]
    by (auto simp: buscar_valor_xml_def is_numeric_path_def Let_def)
qed


theorem buscar_valor_xml_typing_witness:
  "buscar_valor_xml decimal_literal filing_cnpj ''NR_CNPJ_FUNDO'' = PStr ''12345678000190'' \<and>
   buscar_valor_xml decimal_literal filing_empty ''DT_COMPT'' = PStr [] \<and>
   buscar_valor_xml decimal_literal filing_50_30 ''DICRED/VL_DICRED_EXISTE_INAD'' = PFloat (Finite 30) \<and>
   buscar_valor_xml decimal_literal filing_empty ''VL_CARTEIRA'' = PFloat (Finite 0)"
proof -
  have p: "is_text_path ''NR_CNPJ_FUNDO''" "is_text_path ''DT_COMPT''"
    "\<not> is_text_path ''DICRED/VL_DICRED_EXISTE_INAD''" "\<not> is_text_path ''VL_CARTEIRA''"
    by (simp_all add: is_text_path_def text_markers_def)
  have f: "find_xml filing_cnpj ''NR_CNPJ_FUNDO'' =
             Some (Element ''NR_CNPJ_FUNDO'' (Some '' 12345678000190 '') [])"
    "find_xml filing_empty ''DT_COMPT'' = None"
    "find_xml filing_empty ''VL_CARTEIRA'' = None"
    "find_xml filing_50_30 ''DICRED/VL_DICRED_EXISTE_INAD'' =
             Some (Element ''VL_DICRED_EXISTE_INAD'' (Some ''30,00'') [])"
    by (simp_all add: find_xml_def filing_cnpj_def filing_empty_def filing_50_30_def)
  have s: "strip '' 12345678000190 '' = ''12345678000190''"
    by (simp add: strip_def isspace_def)
  have c: "converter_valor decimal_literal (Some ''30,00'') = Finite 30"
    by (simp add: converter_valor_def strip_def isspace_def replace1_def
        decimal_literal_def isdigit_def digits_val_def digit_val_def)
  show ?thesis
    using buscar_valor_xml_typing [of "''NR_CNPJ_FUNDO''" decimal_literal filing_cnpj]
      buscar_valor_xml_typing [of "''DT_COMPT''" decimal_literal filing_empty]
      buscar_valor_xml_typing [of "''DICRED/VL_DICRED_EXISTE_INAD''" decimal_literal filing_50_30
        "Element ''VL_DICRED_EXISTE_INAD'' (Some ''30,00'') []" "''30,00''"]
      buscar_valor_xml_typing [of "''VL_CARTEIRA''" decimal_literal filing_empty]
      p f s c
    by simp
qed


text \<open>
  C5 as stated fails: the path \<^verbatim>\<open>SALDO\<close> is not textual, the filing has no such
  element, and the lookup returns the empty string, not 0.
\<close>

theorem buscar_valor_xml_default_string:
  "\<not> is_text_path ''SALDO'' \<and> find_xml filing_empty ''SALDO'' = None \<and>
   buscar_valor_xml decimal_literal filing_empty ''SALDO'' = PStr [] \<and>
   buscar_valor_xml decimal_literal filing_empty ''SALDO'' \<noteq> PFloat (Finite 0)"
  by (simp add: buscar_valor_xml_def find_xml_def filing_empty_def is_text_path_def
      is_numeric_path_def text_markers_def Let_def)

subsection \<open>C2: columns that are already numeric\<close>

lemma convert_column_numeric:
  "convert_column to_numeric repr replace_dash (NumCol vs) = NumCol vs"
  by (simp add: convert_column_def is_numeric_dtype_def)

text \<open>
  C2. A column of the table that is numeric keeps its values through
  \<open>convert_numeric_columns\<close>, whatever the columns asked for and whatever the text
  conversion \<open>to_numeric\<close>, the printing \<open>repr\<close> and the dash replacement are: the
  values never pass through a text. So 3.15e-10 stays 3.15e-10.
\<close>

theorem convert_numeric_columns_numeric:
  assumes "map_of (columns df) name = Some (NumCol vs)"
  shows "map_of (columns (convert_numeric_columns to_numeric repr df cols replace_dash)) name
           = Some (NumCol vs) \<and>
         index (convert_numeric_columns to_numeric repr df cols replace_dash) = index df"
  using assms
proof (induction cols arbitrary: df)
  case Nil
  then show ?case
    by (simp add: convert_numeric_columns_def)
next
  case (Cons col cols)
  let ?step = "case map_of (columns df) col of
                 Some c \<Rightarrow>
                   df\<lparr>columns :=
                     AList.update col (convert_column to_numeric repr replace_dash c) (columns df)\<rparr>
               | None \<Rightarrow> df"
  have s: "map_of (columns ?step) name = Some (NumCol vs) \<and> index ?step = index df"
    using Cons.prems
    by (cases "map_of (columns df) col")
      (auto simp: update_conv' convert_column_numeric)
  have "convert_numeric_columns to_numeric repr df (col # cols) replace_dash =
        convert_numeric_columns to_numeric repr ?step cols replace_dash"
    by (simp add: convert_numeric_columns_def)
  then show ?case
    using Cons.IH [of ?step] s by simp
qed

theorem convert_numeric_columns_numeric_witness:
  "map_of (columns npl_table) ''INDICE_NPL_DECIMAL'' = Some (NumCol [Finite (315 / 10 ^ 12)]) \<and>
   map_of (columns (convert_numeric_columns to_numeric0 repr0 npl_table
            [''INDICE_NPL_DECIMAL'', ''ATIVO_TOTAL'', ''AUSENTE''] True)) ''INDICE_NPL_DECIMAL''
     = Some (NumCol [Finite (315 / 10 ^ 12)])"
proof -
  have "map_of (columns npl_table) ''INDICE_NPL_DECIMAL'' = Some (NumCol [Finite (315 / 10 ^ 12)])"
    by (simp add: npl_table_def)
  then show ?thesis
    using convert_numeric_columns_numeric
      [of npl_table "''INDICE_NPL_DECIMAL''" "[Finite (315 / 10 ^ 12)]" to_numeric0 repr0
        "[''INDICE_NPL_DECIMAL'', ''ATIVO_TOTAL'', ''AUSENTE'']" True]
    by simp
qed

subsection \<open>C6: the retrying session\<close>

lemma is_exhausted_iff:
  "is_exhausted r \<longleftrightarrow>
     total r < 0 \<or> (\<exists>n. connect r = Some n \<and> n < 0) \<or> (\<exists>n. read r = Some n \<and> n < 0) \<or>
     (\<exists>n. redirect r = Some n \<and> n < 0) \<or> (\<exists>n. status_count r = Some n \<and> n < 0) \<or>
     (\<exists>n. other r = Some n \<and> n < 0)"
proof -
  let ?cs = "filter (\<lambda>c. c \<noteq> 0)
              (total r # concat (map (\<lambda>c. case c of None \<Rightarrow> [] | Some n \<Rightarrow> [n])
                 [connect r, read r, redirect r, status_count r, other r]))"
  have "is_exhausted r \<longleftrightarrow> (\<exists>c\<in>set ?cs. c < 0)"
  proof (cases "?cs = []")
    case True
    then show ?thesis
      unfolding is_exhausted_def Let_def by (simp only: if_True) simp
  next
    case False
    then have "Min (set ?cs) < 0 \<longleftrightarrow> (\<exists>c\<in>set ?cs. c < 0)"
      by (subst Min_less_iff) simp_all
    then show ?thesis
      unfolding is_exhausted_def Let_def using False by (simp only: if_False)
  qed
  also have "\<dots> \<longleftrightarrow>
     total r < 0 \<or> (\<exists>n. connect r = Some n \<and> n < 0) \<or> (\<exists>n. read r = Some n \<and> n < 0) \<or>
     (\<exists>n. redirect r = Some n \<and> n < 0) \<or> (\<exists>n. status_count r = Some n \<and> n < 0) \<or>
     (\<exists>n. other r = Some n \<and> n < 0)"
    by (auto split: option.splits)
  finally show ?thesis .
qed

lemma increment_Some:
  assumes "increment r out = Some r'"
  shows "total r' = total r - 1 \<and> 0 \<le> total r'"
proof -
  from assms have e: "\<not> is_exhausted r'" and t: "total r' = total r - 1"
    by (auto simp: increment_def Let_def split: if_splits outcome.splits)
  from e have "0 \<le> total r'"
    by (simp add: is_exhausted_iff)
  with t show ?thesis
    by simp
qed

lemma urlopen_stop:
  "\<not> retried r (transport n) \<Longrightarrow>
   \<exists>st ra body. transport n = Response st ra body \<and>
     urlopen transport r n slept = (Inr (st, body), n + 1, slept)"
  by (subst urlopen.simps) (auto simp: retried_def split: outcome.splits)

lemma urlopen_exhausted:
  "retried r (transport n) \<Longrightarrow> increment r (transport n) = None \<Longrightarrow>
   urlopen transport r n slept = (Inl ''MaxRetryError'', n + 1, slept)"
  by (subst urlopen.simps) (auto simp: retried_def split: outcome.splits)

lemma urlopen_again:
  "retried r (transport n) \<Longrightarrow> increment r (transport n) = Some r' \<Longrightarrow>
   urlopen transport r n slept =
     urlopen transport r' (n + 1) (slept @ [sleep_time r' (transport n)])"
  by (subst urlopen.simps) (auto simp: retried_def split: outcome.splits)

lemma urlopen_bound:
  "total r = int k \<Longrightarrow>
   (case urlopen transport r n slept of
      (res, m, sl) \<Rightarrow> n + 1 \<le> m \<and> m \<le> n + 1 + k \<and> length sl = length slept + (m - (n + 1)))"
proof (induction k arbitrary: r n slept)
  case 0
  show ?case
  proof (cases "retried r (transport n)")
    case False
    then show ?thesis
      using urlopen_stop [of r transport n slept] by auto
  next
    case True
    have "increment r (transport n) = None"
    proof (cases "increment r (transport n)")
      case (Some r')
      then show ?thesis
        using increment_Some [OF Some] 0 by auto
    qed simp
    then show ?thesis
      using urlopen_exhausted [of r transport n slept] True by simp
  qed
next
  case (Suc k)
  show ?case
  proof (cases "retried r (transport n)")
    case False
    then show ?thesis
      using urlopen_stop [of r transport n slept] by auto
  next
    case True
    show ?thesis
    proof (cases "increment r (transport n)")
      case None
      then show ?thesis
        using urlopen_exhausted [of r transport n slept] True by simp
    next
      case (Some r')
      then have "total r' = int k"
        using increment_Some [OF Some] Suc.prems by simp
      from Suc.IH [OF this, where n = "n + 1" and slept = "slept @ [sleep_time r' (transport n)]"]
      show ?thesis
        unfolding urlopen_again [of r transport n r' slept, OF True Some]
        by (auto split: prod.splits)
    qed
  qed
qed














subsection \<open>C7: the batch\<close>

text \<open>
  C7 fails on the empty batch: no row is collected, the table built from no rows has no
  \<^verbatim>\<open>STATUS\<close> column, and the count of successes raises \<^verbatim>\<open>KeyError\<close> instead of
  returning a table without rows.
\<close>

theorem process_batch_empty:
  "process_batch client float repr fromstring [] = (Inl ''KeyError: STATUS'', 0)"
  by (simp add: process_batch_def frame_columns_def)

text \<open>
  On a batch that is not empty the table has one row for each identifier, in the order
  of the identifiers, and a step that fails or raises gives the row of its status.
\<close>

lemma batch_loop_rows:
  "fst (batch_loop process n i cnpjs (resultados, slept)) = resultados @ map process cnpjs"
  by (induction cnpjs arbitrary: i resultados slept) simp_all

lemma foldl_update_keys:
  "fst ` set (foldl (\<lambda>d (k, v). AList.update (f k) v d) acc xs) = fst ` set acc \<union> f ` fst ` set xs"
proof (induction xs arbitrary: acc)
  case Nil
  show ?case
    by simp
next
  case (Cons x xs)
  obtain k v where x: "x = (k, v)"
    by (cases x)
  show ?case
    by (auto simp: Cons.IH x dom_update)
qed

lemma upper_status: "upper ''status'' = ''STATUS''"
  by (simp add: upper_def)

lemma parse_status_key:
  assumes "parse float repr fromstring x fb = Inr dados"
  shows "''STATUS'' \<in> fst ` set (to_dict dados)"
proof -
  obtain r where r: "fromstring x = Inr r"
    using parse_Inr_root [OF assms] by blast
  have "getattr dados ''status'' = Inr (PStr ''SUCESSO'')"
    using parse_indicator_attrs [of fromstring x r float repr fb dados] r assms by blast
  then have "map_of dados ''status'' \<noteq> None"
    by (auto simp: getattr_def split: option.splits)
  then have "''status'' \<in> fst ` set dados"
    by (simp add: map_of_eq_None_iff)
  then have "upper ''status'' \<in> fst ` set (to_dict dados)"
    unfolding to_dict_def foldl_update_keys by blast
  then show ?thesis
    by (simp only: upper_status)
qed

lemma process_single_cnpj_status_key:
  "''STATUS'' \<in> fst ` set (process_single_cnpj client float repr fromstring cnpj)"
proof (cases "\<exists>e st. process_single_cnpj client float repr fromstring cnpj = error_row cnpj st e")
  case True
  then show ?thesis
    by (auto simp: error_row_def)
next
  case False
  then obtain doc xml_content dados where
    p: "parse float repr fromstring xml_content cnpj = Inr dados" and
    e: "process_single_cnpj client float repr fromstring cnpj =
          AList.update ''ID_DOCUMENTO'' (PStr (py_str repr (dict_get doc ''id'')))
            (AList.update ''DATA_REFERENCIA_DOC'' (dict_get doc ''dataReferencia'') (to_dict dados))"
    by (auto simp: process_single_cnpj_def Let_def split: step.splits option.splits sum.splits)
  show ?thesis
    unfolding e using parse_status_key [OF p] by (simp add: dom_update)
qed

lemma process_batch_nonempty:
  assumes "cnpjs \<noteq> []"
  shows "fst (process_batch client float repr fromstring cnpjs) =
           Inr (map (process_single_cnpj client float repr fromstring) cnpjs)"
proof -
  let ?f = "process_single_cnpj client float repr fromstring"
  obtain resultados slept where
    b: "batch_loop ?f (length cnpjs) 0 cnpjs ([], 0) = (resultados, slept)"
    by (cases "batch_loop ?f (length cnpjs) 0 cnpjs ([], 0)")
  then have r: "resultados = map ?f cnpjs"
    using batch_loop_rows [of ?f "length cnpjs" 0 cnpjs "[]" 0] by simp
  obtain c cs where "cnpjs = c # cs"
    using assms by (cases cnpjs) auto
  then have "''STATUS'' \<in> set (frame_columns resultados)"
    using process_single_cnpj_status_key [of client float repr fromstring c]
    by (auto simp: frame_columns_def r)
  then show ?thesis
    by (simp add: process_batch_def b r)
qed

lemma process_single_cnpj_failures:
  "api_buscar_documentos client cnpj = Fails erro \<Longrightarrow>
     process_single_cnpj client float repr fromstring cnpj = error_row cnpj ''ERRO_BUSCA'' erro"
  "api_buscar_documentos client cnpj = Raises e \<Longrightarrow>
     process_single_cnpj client float repr fromstring cnpj = error_row cnpj ''ERRO_INESPERADO'' e"
  "api_buscar_documentos client cnpj = Succeeds docs \<Longrightarrow>
   api_filtrar_informe_mensal client docs = Fails erro \<Longrightarrow>
     process_single_cnpj client float repr fromstring cnpj = error_row cnpj ''SEM_INFORME_MENSAL'' erro"
  "api_buscar_documentos client cnpj = Succeeds docs \<Longrightarrow>
   api_filtrar_informe_mensal client docs = Succeeds mensal \<Longrightarrow>
   api_selecionar_documento_mais_recente client mensal = Fails erro \<Longrightarrow>
     process_single_cnpj client float repr fromstring cnpj = error_row cnpj ''ERRO_SELECAO'' erro"
  "api_buscar_documentos client cnpj = Succeeds docs \<Longrightarrow>
   api_filtrar_informe_mensal client docs = Succeeds mensal \<Longrightarrow>
   api_selecionar_documento_mais_recente client mensal = Succeeds doc \<Longrightarrow>
   map_of doc ''id'' = Some doc_id \<Longrightarrow> api_baixar_xml client doc_id = Fails erro \<Longrightarrow>
     process_single_cnpj client float repr fromstring cnpj = error_row cnpj ''ERRO_DOWNLOAD'' erro"
  "api_buscar_documentos client cnpj = Succeeds docs \<Longrightarrow>
   api_filtrar_informe_mensal client docs = Succeeds mensal \<Longrightarrow>
   api_selecionar_documento_mais_recente client mensal = Succeeds doc \<Longrightarrow>
   map_of doc ''id'' = Some doc_id \<Longrightarrow> api_baixar_xml client doc_id = Succeeds xml_content \<Longrightarrow>
   parse float repr fromstring xml_content cnpj = Inl erro \<Longrightarrow>
     process_single_cnpj client float repr fromstring cnpj = error_row cnpj ''ERRO_PARSE'' erro"
  by (simp_all add: process_single_cnpj_def)

lemma process_batch_offline:
  "process_batch offline_client decimal_literal repr0 Inr [''11111111000111'', ''22222222000122''] =
     (Inr [error_row ''11111111000111'' ''ERRO_BUSCA'' ''Erro busca: ConnectionError'',
           error_row ''22222222000122'' ''ERRO_BUSCA'' ''Erro busca: ConnectionError''], 1)"
  by (simp add: process_batch_def process_single_cnpj_def offline_client_def frame_columns_def
      error_row_def)

subsection \<open>C8: the difference report\<close>

lemma diff_cell_iff:
  "(k', c', d) \<in> set (diff_cell k c a b) \<longleftrightarrow> k' = k \<and> c' = c \<and> spec_delta a b = Some d \<and> d \<noteq> Finite 0"
  by (auto simp: diff_cell_def spec_delta_def py_ne_def Let_def)

lemma scalar_single: "scalar [a] = Inr a"
  by (simp add: scalar_def)

lemma diff_cols_Inr:
  assumes "\<forall>col\<in>set cols. \<exists>a b. loc v1 k col = [a] \<and> loc v2 k col = [b]"
  shows "\<exists>recs. diff_cols v1 v2 k cols = Inr recs \<and>
     (\<forall>k' c d. (k', c, d) \<in> set recs \<longleftrightarrow>
        k' = k \<and> c \<in> set cols \<and>
        (\<exists>a b. loc v1 k c = [a] \<and> loc v2 k c = [b] \<and> spec_delta a b = Some d \<and> d \<noteq> Finite 0))"
  using assms
proof (induction cols)
  case Nil
  then show ?case
    by simp
next
  case (Cons col cols)
  obtain a b where ab: "loc v1 k col = [a]" "loc v2 k col = [b]"
    using Cons.prems by auto
  obtain recs where r: "diff_cols v1 v2 k cols = Inr recs"
    and m: "\<And>k' c d. (k', c, d) \<in> set recs \<longleftrightarrow>
        k' = k \<and> c \<in> set cols \<and>
        (\<exists>a b. loc v1 k c = [a] \<and> loc v2 k c = [b] \<and> spec_delta a b = Some d \<and> d \<noteq> Finite 0)"
    using Cons.IH Cons.prems by auto
  have "diff_cols v1 v2 k (col # cols) = Inr (diff_cell k col a b @ recs)"
    by (simp add: ab r bind_exn_def scalar_single)
  moreover have "(k', c, d) \<in> set (diff_cell k col a b @ recs) \<longleftrightarrow>
        k' = k \<and> c \<in> set (col # cols) \<and>
        (\<exists>a b. loc v1 k c = [a] \<and> loc v2 k c = [b] \<and> spec_delta a b = Some d \<and> d \<noteq> Finite 0)"
    for k' c d
    using ab by (auto simp: diff_cell_iff m)
  ultimately show ?case
    by blast
qed

lemma diff_rows_Inr:
  assumes "\<forall>k\<in>set ks. \<forall>col\<in>set cols. \<exists>a b. loc v1 k col = [a] \<and> loc v2 k col = [b]"
  shows "\<exists>recs. diff_rows v1 v2 ks cols = Inr recs \<and>
     (\<forall>k c d. (k, c, d) \<in> set recs \<longleftrightarrow>
        k \<in> set ks \<and> c \<in> set cols \<and>
        (\<exists>a b. loc v1 k c = [a] \<and> loc v2 k c = [b] \<and> spec_delta a b = Some d \<and> d \<noteq> Finite 0))"
  using assms
proof (induction ks)
  case Nil
  then show ?case
    by simp
next
  case (Cons k0 ks)
  obtain recs0 where r0: "diff_cols v1 v2 k0 cols = Inr recs0"
    and m0: "\<And>k c d. (k, c, d) \<in> set recs0 \<longleftrightarrow>
        k = k0 \<and> c \<in> set cols \<and>
        (\<exists>a b. loc v1 k0 c = [a] \<and> loc v2 k0 c = [b] \<and> spec_delta a b = Some d \<and> d \<noteq> Finite 0)"
    using diff_cols_Inr [of cols v1 k0 v2] Cons.prems by auto
  obtain recs where r: "diff_rows v1 v2 ks cols = Inr recs"
    and m: "\<And>k c d. (k, c, d) \<in> set recs \<longleftrightarrow>
        k \<in> set ks \<and> c \<in> set cols \<and>
        (\<exists>a b. loc v1 k c = [a] \<and> loc v2 k c = [b] \<and> spec_delta a b = Some d \<and> d \<noteq> Finite 0)"
    using Cons.IH Cons.prems by auto
  have "diff_rows v1 v2 (k0 # ks) cols = Inr (recs0 @ recs)"
    by (simp add: r0 r bind_exn_def)
  moreover have "(k, c, d) \<in> set (recs0 @ recs) \<longleftrightarrow>
        k \<in> set (k0 # ks) \<and> c \<in> set cols \<and>
        (\<exists>a b. loc v1 k c = [a] \<and> loc v2 k c = [b] \<and> spec_delta a b = Some d \<and> d \<noteq> Finite 0)"
    for k c d
    by (auto simp: m0 m)
  ultimately show ?case
    by blast
qed

lemma filter_zip_absent:
  "k \<notin> set xs \<Longrightarrow> filter (\<lambda>(k', v). k' = k) (zip xs ys) = []"
  by (auto simp: filter_empty_conv dest: set_zip_leftD)

lemma filter_zip_unique:
  assumes "length xs = length ys" and "distinct xs" and "k \<in> set xs"
  shows "\<exists>v. filter (\<lambda>(k', v). k' = k) (zip xs ys) = [(k, v)]"
  using assms
proof (induction xs ys rule: list_induct2)
  case Nil
  then show ?case
    by simp
next
  case (Cons x xs y ys)
  show ?case
  proof (cases "x = k")
    case True
    then have "k \<notin> set xs"
      using Cons.prems by simp
    then show ?thesis
      using True by (simp add: filter_zip_absent)
  next
    case False
    then show ?thesis
      using Cons by simp
  qed
qed

lemma numeric_columns_iff:
  "col \<in> set (numeric_columns df) \<longleftrightarrow> (\<exists>vs. map_of (columns df) col = Some (NumCol vs))"
proof
  assume "col \<in> set (numeric_columns df)"
  then show "\<exists>vs. map_of (columns df) col = Some (NumCol vs)"
    by (auto simp: numeric_columns_def split: option.splits column.splits)
next
  assume "\<exists>vs. map_of (columns df) col = Some (NumCol vs)"
  then obtain vs where v: "map_of (columns df) col = Some (NumCol vs)"
    by blast
  then have "col \<in> fst ` set (columns df)"
    by (metis domI dom_map_of_conv_image_fst)
  then show "col \<in> set (numeric_columns df)"
    using v by (simp add: numeric_columns_def)
qed

lemma loc_single:
  assumes "well_formed df" and "distinct (index df)" and "k \<in> set (index df)"
    and "col \<in> set (numeric_columns df)"
  shows "\<exists>a. loc df k col = [a]"
proof -
  obtain vs where v: "map_of (columns df) col = Some (NumCol vs)"
    using assms(4) numeric_columns_iff by blast
  then have "(col, NumCol vs) \<in> set (columns df)"
    by (rule map_of_SomeD)
  then have "length (index df) = length vs"
    using assms(1) by (auto simp: well_formed_def list_all_iff column_length_def)
  then obtain a where "filter (\<lambda>(k', v). k' = k) (zip (index df) vs) = [(k, a)]"
    using filter_zip_unique [of "index df" vs k] assms(2,3) by blast
  then show ?thesis
    by (simp add: loc_def v)
qed

lemma well_formed_indexed:
  assumes "well_formed df"
  shows "well_formed (indexed df)"
proof (cases "map_of (columns df) ''CNPJ_FUNDO''")
  case None
  then have "''CNPJ_FUNDO'' \<notin> fst ` set (columns df)"
    by (simp add: map_of_eq_None_iff)
  then show ?thesis
    using assms by (simp add: indexed_def)
next
  case (Some col)
  then have "(''CNPJ_FUNDO'', col) \<in> set (columns df)"
    by (rule map_of_SomeD)
  then have l: "column_length col = length (index df)"
    using assms by (auto simp: well_formed_def list_all_iff)
  have "length (labels col) = column_length col"
    by (cases col) (simp_all add: labels_def column_length_def)
  then have "well_formed (set_index ''CNPJ_FUNDO'' df)"
    using assms l Some
    by (auto simp: well_formed_def list_all_iff set_index_def AList.delete_eq)
  then show ?thesis
    using assms by (simp add: indexed_def)
qed

text \<open>
  For two well-formed tables in which no identifier labels two rows, the report is
  produced and its records are exactly these: one for each identifier present in both
  tables and each column numeric in both, with the delta \<open>v2\<close> when only \<open>v1\<close> is
  missing, \<open>- v1\<close> when only \<open>v2\<close> is missing and \<open>v2 - v1\<close> otherwise, and none when
  both values are missing or the delta is 0.
\<close>

lemma diff_report_keyed_tables:
  assumes "well_formed df_v1" and "well_formed df_v2"
    and "distinct (index (indexed df_v1))" and "distinct (index (indexed df_v2))"
  shows "\<exists>recs. generate_diff_report df_v1 df_v2 = Inr recs \<and>
     (\<forall>cnpj col d. (cnpj, col, d) \<in> set recs \<longleftrightarrow>
        cnpj \<in> set (index (indexed df_v1)) \<and> cnpj \<in> set (index (indexed df_v2)) \<and>
        col \<in> set (numeric_columns (indexed df_v1)) \<and> col \<in> set (numeric_columns (indexed df_v2)) \<and>
        (\<exists>v1 v2. loc (indexed df_v1) cnpj col = [v1] \<and> loc (indexed df_v2) cnpj col = [v2] \<and>
           spec_delta v1 v2 = Some d \<and> d \<noteq> Finite 0))"
proof -
  let ?a = "indexed df_v1" and ?b = "indexed df_v2"
  let ?ks = "remdups (filter (\<lambda>k. k \<in> set (index ?b)) (index ?a))"
  let ?cols = "filter (\<lambda>c. c \<in> set (numeric_columns ?b)) (numeric_columns ?a)"
  have wa: "well_formed ?a" and wb: "well_formed ?b"
    using assms(1,2) by (simp_all add: well_formed_indexed)
  have "\<forall>k\<in>set ?ks. \<forall>col\<in>set ?cols. \<exists>a b. loc ?a k col = [a] \<and> loc ?b k col = [b]"
    using loc_single [OF wa assms(3)] loc_single [OF wb assms(4)] by auto
  then obtain recs where r: "diff_rows ?a ?b ?ks ?cols = Inr recs"
    and m: "\<And>k c d. (k, c, d) \<in> set recs \<longleftrightarrow>
        k \<in> set ?ks \<and> c \<in> set ?cols \<and>
        (\<exists>a b. loc ?a k c = [a] \<and> loc ?b k c = [b] \<and> spec_delta a b = Some d \<and> d \<noteq> Finite 0)"
    using diff_rows_Inr [of ?ks ?cols ?a ?b] by auto
  show ?thesis
  proof (cases "?ks = [] \<or> ?cols = []")
    case True
    then have "generate_diff_report df_v1 df_v2 = Inr []"
      by (auto simp: generate_diff_report_def Let_def)
    moreover have "\<not> (cnpj \<in> set (index ?a) \<and> cnpj \<in> set (index ?b) \<and>
        col \<in> set (numeric_columns ?a) \<and> col \<in> set (numeric_columns ?b))" for cnpj col
      using True by (auto simp: filter_empty_conv)
    ultimately show ?thesis
      by auto
  next
    case False
    then have "generate_diff_report df_v1 df_v2 = Inr recs"
      by (auto simp: generate_diff_report_def Let_def r)
    moreover have "(cnpj, col, d) \<in> set recs \<longleftrightarrow>
        cnpj \<in> set (index ?a) \<and> cnpj \<in> set (index ?b) \<and>
        col \<in> set (numeric_columns ?a) \<and> col \<in> set (numeric_columns ?b) \<and>
        (\<exists>v1 v2. loc ?a cnpj col = [v1] \<and> loc ?b cnpj col = [v2] \<and>
           spec_delta v1 v2 = Some d \<and> d \<noteq> Finite 0)" for cnpj col d
      by (auto simp: m)
    ultimately show ?thesis
      by blast
  qed
qed

lemma indexed_tables:
  "indexed table_v1 =
     \<lparr>index = [PStr ''A'', PStr ''B''],
      columns = [(''ATIVO_TOTAL'', NumCol [Finite 10, NaN]),
                 (''CARTEIRA_TOTAL'', NumCol [Finite 7, NaN]),
                 (''STATUS'', ObjCol [PStr ''SUCESSO'', PStr ''SUCESSO''])]\<rparr>"
  "indexed table_v2 =
     \<lparr>index = [PStr ''B'', PStr ''A'', PStr ''C''],
      columns = [(''ATIVO_TOTAL'', NumCol [Finite 5, Finite 12, Finite 1]),
                 (''CARTEIRA_TOTAL'', NumCol [NaN, Finite 7, Finite 1]),
                 (''STATUS'', ObjCol [PStr ''SUCESSO'', PStr ''SUCESSO'', PStr ''SUCESSO''])]\<rparr>"
  by (simp_all add: indexed_def set_index_def table_v1_def table_v2_def labels_def AList.delete_eq)

lemma diff_report_keyed_example:
  "well_formed table_v1 \<and> well_formed table_v2 \<and>
   distinct (index (indexed table_v1)) \<and> distinct (index (indexed table_v2)) \<and>
   (\<exists>recs. generate_diff_report table_v1 table_v2 = Inr recs \<and>
      (PStr ''A'', ''ATIVO_TOTAL'', Finite 2) \<in> set recs \<and>
      (PStr ''B'', ''ATIVO_TOTAL'', Finite 5) \<in> set recs \<and>
      (\<forall>d. (PStr ''A'', ''CARTEIRA_TOTAL'', d) \<notin> set recs) \<and>
      (\<forall>d. (PStr ''B'', ''CARTEIRA_TOTAL'', d) \<notin> set recs) \<and>
      (\<forall>col d. (PStr ''C'', col, d) \<notin> set recs))"
proof -
  have w: "well_formed table_v1" "well_formed table_v2"
    by (simp_all add: well_formed_def table_v1_def table_v2_def column_length_def)
  have d: "distinct (index (indexed table_v1))" "distinct (index (indexed table_v2))"
    by (simp_all add: indexed_tables)
  have l: "loc (indexed table_v1) (PStr ''A'') ''ATIVO_TOTAL'' = [Finite 10]"
    "loc (indexed table_v2) (PStr ''A'') ''ATIVO_TOTAL'' = [Finite 12]"
    "loc (indexed table_v1) (PStr ''B'') ''ATIVO_TOTAL'' = [NaN]"
    "loc (indexed table_v2) (PStr ''B'') ''ATIVO_TOTAL'' = [Finite 5]"
    "loc (indexed table_v1) (PStr ''A'') ''CARTEIRA_TOTAL'' = [Finite 7]"
    "loc (indexed table_v2) (PStr ''A'') ''CARTEIRA_TOTAL'' = [Finite 7]"
    "loc (indexed table_v1) (PStr ''B'') ''CARTEIRA_TOTAL'' = [NaN]"
    "loc (indexed table_v2) (PStr ''B'') ''CARTEIRA_TOTAL'' = [NaN]"
    by (simp_all add: indexed_tables loc_def)
  have n: "''ATIVO_TOTAL'' \<in> set (numeric_columns (indexed table_v1))"
    "''ATIVO_TOTAL'' \<in> set (numeric_columns (indexed table_v2))"
    by (simp_all add: indexed_tables numeric_columns_def)
  have i: "PStr ''C'' \<notin> set (index (indexed table_v1))"
    "PStr ''A'' \<in> set (index (indexed table_v1))" "PStr ''A'' \<in> set (index (indexed table_v2))"
    "PStr ''B'' \<in> set (index (indexed table_v1))" "PStr ''B'' \<in> set (index (indexed table_v2))"
    by (simp_all add: indexed_tables)
  obtain recs where r: "generate_diff_report table_v1 table_v2 = Inr recs"
    and m: "\<And>cnpj col d. (cnpj, col, d) \<in> set recs \<longleftrightarrow>
        cnpj \<in> set (index (indexed table_v1)) \<and> cnpj \<in> set (index (indexed table_v2)) \<and>
        col \<in> set (numeric_columns (indexed table_v1)) \<and>
        col \<in> set (numeric_columns (indexed table_v2)) \<and>
        (\<exists>v1 v2. loc (indexed table_v1) cnpj col = [v1] \<and> loc (indexed table_v2) cnpj col = [v2] \<and>
           spec_delta v1 v2 = Some d \<and> d \<noteq> Finite 0)"
    using diff_report_keyed_tables [OF w d] by auto
  have "(PStr ''A'', ''ATIVO_TOTAL'', Finite 2) \<in> set recs"
    "(PStr ''B'', ''ATIVO_TOTAL'', Finite 5) \<in> set recs"
    "\<forall>d. (PStr ''A'', ''CARTEIRA_TOTAL'', d) \<notin> set recs"
    "\<forall>d. (PStr ''B'', ''CARTEIRA_TOTAL'', d) \<notin> set recs"
    "\<forall>col d. (PStr ''C'', col, d) \<notin> set recs"
    using l n i by (simp_all add: m spec_delta_def)
  with w d r show ?thesis
    by blast
qed

text \<open>
  C8. The claim fails on a first table in which the identifier \<^verbatim>\<open>A\<close> labels two rows
  (with assets 10 and 11) and a second table with one row for \<^verbatim>\<open>A\<close> (assets 12): the
  identifier is in both tables and the column is numeric in both, but
  \<^verbatim>\<open>df.loc[cnpj, col]\<close> is then a series of two values, the test of its missing values
  raises \<^verbatim>\<open>ValueError\<close>, and no record is emitted. The same happens with the two tables
  exchanged.
\<close>

theorem generate_diff_report_duplicate:
  "index (indexed table_dup) = [PStr ''A'', PStr ''A''] \<and>
   index (indexed table_one) = [PStr ''A''] \<and>
   numeric_columns (indexed table_dup) = [''ATIVO_TOTAL''] \<and>
   numeric_columns (indexed table_one) = [''ATIVO_TOTAL''] \<and>
   loc (indexed table_dup) (PStr ''A'') ''ATIVO_TOTAL'' = [Finite 10, Finite 11] \<and>
   generate_diff_report table_dup table_one =
     Inl ''ValueError: The truth value of a Series is ambiguous'' \<and>
   generate_diff_report table_one table_dup =
     Inl ''ValueError: The truth value of a Series is ambiguous''"
  by (simp add: generate_diff_report_def indexed_def set_index_def table_dup_def table_one_def
      labels_def AList.delete_eq numeric_columns_def loc_def scalar_def bind_exn_def Let_def)

end
